theory Spec2Isabelle
  imports Complex_Main "HOL-Library.Monad_Syntax"
begin

section \<open>Arithmetic of the embedding\<close>

text \<open>
  The program computes with \<^verbatim>\<open>double\<close>. The embedding idealises a \<^verbatim>\<open>double\<close> as a
  \<^typ>\<open>real\<close>: rounding, overflow and underflow are not modelled, and a decimal literal
  of the source denotes the real number it is written as. What is kept of IEEE 754
  arithmetic is where it leaves the finite numbers for a reason other than size: an
  operation that signals divide-by-zero or invalid-operation (and returns an infinity
  or a NaN in C++) has the value \<^term>\<open>None\<close> here, and every function that uses one
  returns an \<^typ>\<open>'a option\<close>. Division by a nonzero literal of the source (\<^verbatim>\<open>/ 2\<close>,
  \<^verbatim>\<open>/ 3.0\<close>, \<^verbatim>\<open>-1.0/3\<close>) is written with the division of \<^typ>\<open>real\<close>.
\<close>

definition fdiv :: "real \<Rightarrow> real \<Rightarrow> real option" where
  \<comment> \<open>\<^verbatim>\<open>x / y\<close> on doubles: a zero divisor signals divide-by-zero (or invalid, for 0/0).\<close>
  "fdiv x y = (if y = 0 then None else Some (x / y))"

definition std_pow :: "real \<Rightarrow> real \<Rightarrow> real option" where
  \<comment> \<open>\<^verbatim>\<open>std::pow(x, y)\<close>: a pole error at \<^verbatim>\<open>x = 0, y < 0\<close>, a domain error at
      \<^verbatim>\<open>x < 0\<close> with \<^verbatim>\<open>y\<close> not an integer; \<^verbatim>\<open>pow(x, 0) = 1\<close> for every \<^verbatim>\<open>x\<close>.\<close>
  "std_pow x y =
     (if 0 < x then Some (x powr y)
      else if y = 0 then Some 1
      else if x = 0 then (if 0 < y then Some 0 else None)
      else if y = of_int \<lfloor>y\<rfloor> then Some (x powi \<lfloor>y\<rfloor>)
      else None)"

section \<open>Viscosity of ice (src/physics/viscosity.cpp)\<close>

text \<open>
  \<^verbatim>\<open>year_in_sec\<close> and \<^verbatim>\<open>ideal_gas\<close> are declared in \<^verbatim>\<open>icepack/physics/constants.hpp\<close>,
  which is not part of the sources modelled here: the functions take them as a parameter.
\<close>

record constants =
  year_in_sec :: real
  ideal_gas :: real

definition transition_temperature :: real where
  "transition_temperature = 263.215"

definition A0_cold :: "constants \<Rightarrow> real" where
  "A0_cold c = 3.985 / 10 ^ 13 * year_in_sec c * 10 ^ 18"

definition A0_warm :: "constants \<Rightarrow> real" where
  "A0_warm c = 1.916 * 10 ^ 3 * year_in_sec c * 10 ^ 18"

definition Q_cold :: real where
  "Q_cold = 60"

definition Q_warm :: real where
  "Q_warm = 139"

definition rate_factor :: "constants \<Rightarrow> real \<Rightarrow> real option" where
  "rate_factor c temperature =
     (let cold = (temperature < transition_temperature);
          A0 = (if cold then A0_cold c else A0_warm c);
          Q = (if cold then Q_cold else Q_warm)
      in do {
        x \<leftarrow> fdiv (- Q) (ideal_gas c * temperature);
        Some (A0 * exp x)
      })"

definition viscosity :: "constants \<Rightarrow> real \<Rightarrow> real \<Rightarrow> real option" where
  "viscosity c temperature strain_rate =
     do {
       A \<leftarrow> rate_factor c temperature;
       p \<leftarrow> std_pow (A * strain_rate * strain_rate) (- 1 / 3);
       Some (p / 2)
     }"

text \<open>The constants used where a concrete evaluation is wanted: a Julian year in
  seconds and the gas constant in kJ/(mol K).\<close>

definition sample_constants :: constants where
  "sample_constants = \<lparr>year_in_sec = 31557600, ideal_gas = 8.3144621 / 10 ^ 3\<rparr>"

section \<open>Symmetric tensors of dimension 2 (the tensor algebra the program calls)\<close>

text \<open>
  A \<^verbatim>\<open>SymmetricTensor<2, 2>\<close> is stored by its independent components \<open>[0][0]\<close>,
  \<open>[1][1]\<close> and \<open>[0][1]\<close>; a \<^verbatim>\<open>SymmetricTensor<4, 2>\<close> is the 3 by 3 table of its
  components over pairs of those, row by row. The off-diagonal component stands for
  both \<open>[0][1]\<close> and \<open>[1][0]\<close>, hence the factor 2 in the contractions.
\<close>

datatype sym2 = Sym2 (c00: real) (c11: real) (c01: real)

datatype sym4 = Sym4 (row0: sym2) (row1: sym2) (row2: sym2)

definition unit_symmetric_tensor :: sym2 where
  "unit_symmetric_tensor = Sym2 1 1 0"

definition identity_tensor :: sym4 where
  \<comment> \<open>the identity on symmetric tensors: entries 1, 1 and 1/2\<close>
  "identity_tensor = Sym4 (Sym2 1 0 0) (Sym2 0 1 0) (Sym2 0 0 (1 / 2))"

definition first_invariant :: "sym2 \<Rightarrow> real" where
  "first_invariant t = c00 t + c11 t"

definition scalar_product :: "sym2 \<Rightarrow> sym2 \<Rightarrow> real" where
  \<comment> \<open>\<^verbatim>\<open>a * b\<close> of two rank-2 tensors: the double contraction \<open>a : b\<close>\<close>
  "scalar_product a b = c00 a * c00 b + c11 a * c11 b + 2 * (c01 a * c01 b)"

definition add2 :: "sym2 \<Rightarrow> sym2 \<Rightarrow> sym2" where
  "add2 a b = Sym2 (c00 a + c00 b) (c11 a + c11 b) (c01 a + c01 b)"

definition sub2 :: "sym2 \<Rightarrow> sym2 \<Rightarrow> sym2" where
  "sub2 a b = Sym2 (c00 a - c00 b) (c11 a - c11 b) (c01 a - c01 b)"

definition scale2 :: "real \<Rightarrow> sym2 \<Rightarrow> sym2" where
  "scale2 k a = Sym2 (k * c00 a) (k * c11 a) (k * c01 a)"

definition div2 :: "sym2 \<Rightarrow> real \<Rightarrow> sym2 option" where
  \<comment> \<open>\<^verbatim>\<open>a / k\<close>: every component is divided by \<open>k\<close>\<close>
  "div2 a k = (if k = 0 then None else Some (Sym2 (c00 a / k) (c11 a / k) (c01 a / k)))"

definition outer_product :: "sym2 \<Rightarrow> sym2 \<Rightarrow> sym4" where
  "outer_product a b = Sym4 (scale2 (c00 a) b) (scale2 (c11 a) b) (scale2 (c01 a) b)"

definition add4 :: "sym4 \<Rightarrow> sym4 \<Rightarrow> sym4" where
  "add4 s t = Sym4 (add2 (row0 s) (row0 t)) (add2 (row1 s) (row1 t)) (add2 (row2 s) (row2 t))"

definition sub4 :: "sym4 \<Rightarrow> sym4 \<Rightarrow> sym4" where
  "sub4 s t = Sym4 (sub2 (row0 s) (row0 t)) (sub2 (row1 s) (row1 t)) (sub2 (row2 s) (row2 t))"

definition scale4 :: "real \<Rightarrow> sym4 \<Rightarrow> sym4" where
  "scale4 k t = Sym4 (scale2 k (row0 t)) (scale2 k (row1 t)) (scale2 k (row2 t))"

definition double_contract :: "sym4 \<Rightarrow> sym2 \<Rightarrow> sym2" where
  \<comment> \<open>\<^verbatim>\<open>t * a\<close> of a rank-4 and a rank-2 tensor: \<open>t : a\<close>\<close>
  "double_contract t a =
     Sym2 (scalar_product (row0 t) a) (scalar_product (row1 t) a) (scalar_product (row2 t) a)"

definition std_sqrt :: "real \<Rightarrow> real option" where
  \<comment> \<open>\<^verbatim>\<open>sqrt\<close>: a domain error below zero\<close>
  "std_sqrt x = (if x < 0 then None else Some (sqrt x))"

section \<open>Constitutive tensors of the shallow stream model (namespace SSA)\<close>

definition SSA_I :: sym2 where
  "SSA_I = unit_symmetric_tensor"

definition SSA_II :: sym4 where
  "SSA_II = identity_tensor"

definition SSA_C :: sym4 where
  "SSA_C = add4 SSA_II (outer_product SSA_I SSA_I)"

definition nonlinear :: "constants \<Rightarrow> real \<Rightarrow> real \<Rightarrow> sym2 \<Rightarrow> sym4 option" where
  "nonlinear c T h eps =
     (let tr = first_invariant eps in
      do {
        eps_e \<leftarrow> std_sqrt ((scalar_product eps eps + tr * tr) / 2);
        v \<leftarrow> viscosity c T eps_e;
        let nu = h * v;
        Some (scale4 (2 * nu) SSA_C)
      })"

definition linearized :: "constants \<Rightarrow> real \<Rightarrow> real \<Rightarrow> sym2 \<Rightarrow> sym4 option" where
  "linearized c T h eps =
     (let tr = first_invariant eps in
      do {
        eps_e \<leftarrow> std_sqrt ((scalar_product eps eps + tr * tr) / 2);
        gamma \<leftarrow> div2 (add2 eps (scale2 tr SSA_I)) eps_e;
        v \<leftarrow> viscosity c T eps_e;
        let nu = h * v;
        Some (scale4 (2 * nu) (sub4 SSA_C (scale4 (1 / 3) (outer_product gamma gamma))))
      })"

text \<open>
  The effective strain rate as the specification names it, and the tensor the
  specification gives for \<open>nonlinear_tensor\<close>, written from its words:
  \<open>2\<nu>(2 I4 + I2 \<otimes> I2)\<close> with \<open>\<nu> = h * viscosity(T, \<epsilon>e)\<close>.
\<close>

definition effective_strain_rate :: "sym2 \<Rightarrow> real" where
  "effective_strain_rate eps =
     sqrt ((scalar_product eps eps + first_invariant eps * first_invariant eps) / 2)"

definition nonlinear_tensor_spec :: "constants \<Rightarrow> real \<Rightarrow> real \<Rightarrow> sym2 \<Rightarrow> sym4 option" where
  "nonlinear_tensor_spec c T h eps =
     do {
       v \<leftarrow> viscosity c T (effective_strain_rate eps);
       Some (scale4 (2 * (h * v))
              (add4 (scale4 2 identity_tensor)
                    (outer_product unit_symmetric_tensor unit_symmetric_tensor)))
     }"

section \<open>The discretization the regularizers work on\<close>

text \<open>
  The regularizers of \<^verbatim>\<open>icepack/inverse/regularization.hpp\<close> are templates over the
  rank and the dimension of a field; the embedding is their instance for a scalar
  field in the plane (\<^verbatim>\<open>rank = 0\<close>, \<^verbatim>\<open>dim = 2\<close>), whose values are reals and whose
  gradients are vectors of the plane. The mesh, the finite element, the quadrature
  rule and the constraints come from the finite element library and from
  \<^verbatim>\<open>icepack/field.hpp\<close>; they are data here. A cell carries what \<^verbatim>\<open>FEValues\<close> gives
  after \<^verbatim>\<open>reinit(cell)\<close>: the weight \<^verbatim>\<open>JxW(q)\<close>, the value and the gradient of the shape
  function \<^verbatim>\<open>i\<close> at the quadrature point \<^verbatim>\<open>q\<close>, and the global indices of its degrees of
  freedom. The constraints are the two functions the regularizers call on them.
  In a discretization of the library every index of a degree of freedom is below the
  number of degrees of freedom; the embedding reads the coefficient lists with \<open>!\<close> and
  no property below depends on what is read out of range.
\<close>

type_synonym vec2 = "real \<times> real"

definition dot :: "vec2 \<Rightarrow> vec2 \<Rightarrow> real" where
  "dot a b = fst a * fst b + snd a * snd b"

definition smul :: "real \<Rightarrow> vec2 \<Rightarrow> vec2" where
  "smul k a = (k * fst a, k * snd a)"

definition vdiv :: "vec2 \<Rightarrow> real \<Rightarrow> vec2 option" where
  "vdiv a k = (if k = 0 then None else Some (fst a / k, snd a / k))"

type_synonym matrix = "real list list"

definition mat_vec :: "matrix \<Rightarrow> real list \<Rightarrow> real list" where
  \<comment> \<open>\<^verbatim>\<open>vmult\<close>: the product of a matrix and a vector\<close>
  "mat_vec A v = map (\<lambda>row. sum_list (map2 (*) row v)) A"

definition vec_add :: "real list \<Rightarrow> real list \<Rightarrow> real list" where
  "vec_add v w = map2 (+) v w"

definition inner :: "real list \<Rightarrow> real list \<Rightarrow> real" where
  "inner v w = sum_list (map2 (*) v w)"

record cell =
  JxW :: "nat \<Rightarrow> real"
  shape_value :: "nat \<Rightarrow> nat \<Rightarrow> real"
  shape_gradient :: "nat \<Rightarrow> nat \<Rightarrow> vec2"
  dof_indices :: "nat list"

record constraints =
  distribute_vector :: "(nat \<Rightarrow> real) \<Rightarrow> nat list \<Rightarrow> real list \<Rightarrow> real list"
  distribute_matrix :: "(nat \<Rightarrow> nat \<Rightarrow> real) \<Rightarrow> nat list \<Rightarrow> matrix \<Rightarrow> matrix"

record discretization =
  quad_size :: nat
  dofs_per_cell :: nat
  active_cells :: "cell list"
  n_dofs :: nat
  get_constraints :: constraints
  get_mass_matrix :: matrix

record field =
  get_discretization :: discretization
  get_coefficients :: "real list"

definition new_field :: "discretization \<Rightarrow> field" where
  \<comment> \<open>a field constructed from its discretization: all coefficients zero\<close>
  "new_field dsc = \<lparr>get_discretization = dsc, get_coefficients = replicate (n_dofs dsc) 0\<rparr>"

definition zero_matrix :: "nat \<Rightarrow> matrix" where
  "zero_matrix n = replicate n (replicate n 0)"

definition get_function_gradients :: "discretization \<Rightarrow> cell \<Rightarrow> real list \<Rightarrow> nat \<Rightarrow> vec2" where
  \<comment> \<open>the gradient at the quadrature point \<open>q\<close> of the function with the given coefficients\<close>
  "get_function_gradients dsc cell coefficients q =
     (\<Sum>i<dofs_per_cell dsc. coefficients ! (dof_indices cell ! i) * fst (shape_gradient cell i q),
      \<Sum>i<dofs_per_cell dsc. coefficients ! (dof_indices cell ! i) * snd (shape_gradient cell i q))"

primrec for_loop :: "nat \<Rightarrow> (nat \<Rightarrow> 's \<Rightarrow> 's option) \<Rightarrow> 's \<Rightarrow> 's option" where
  \<comment> \<open>\<^verbatim>\<open>for (unsigned int i = 0; i < n; ++i) body\<close>\<close>
  "for_loop 0 body s = Some s"
| "for_loop (Suc n) body s = for_loop n body s \<bind> body n"

primrec for_each :: "'a list \<Rightarrow> ('a \<Rightarrow> 's \<Rightarrow> 's option) \<Rightarrow> 's \<Rightarrow> 's option" where
  \<comment> \<open>\<^verbatim>\<open>for (auto cell: cells) body\<close>\<close>
  "for_each [] body s = Some s"
| "for_each (x # xs) body s = body x s \<bind> for_each xs body"

section \<open>The square gradient regularizer (class SquareGradient)\<close>

text \<open>
  The linear solvers are parameters. \<^verbatim>\<open>SolverCG\<close> is the library's conjugate gradient
  solver: it takes its control (iteration bound and tolerance), the operator, the
  vector to solve into and the right-hand side, and returns the solution or throws
  (\<^term>\<open>None\<close>).
\<close>

type_synonym linear_operator = "real list \<Rightarrow> real list"

type_synonym solver_cg = "nat \<times> real \<Rightarrow> linear_operator \<Rightarrow> real list \<Rightarrow> real list \<Rightarrow> real list option"

definition laplace_cell_matrix :: "real \<Rightarrow> discretization \<Rightarrow> cell \<Rightarrow> nat \<Rightarrow> nat \<Rightarrow> real" where
  "laplace_cell_matrix a dsc cell i j =
     (\<Sum>q<quad_size dsc. a * dot (shape_gradient cell i q) (shape_gradient cell j q) * JxW cell q)"

definition create_laplace_matrix :: "discretization \<Rightarrow> real \<Rightarrow> matrix" where
  \<comment> \<open>\<^verbatim>\<open>MatrixCreator::create_laplace_matrix\<close> of the library, with a constant coefficient\<close>
  "create_laplace_matrix dsc a =
     fold (\<lambda>cell. distribute_matrix (get_constraints dsc) (laplace_cell_matrix a dsc cell)
                     (dof_indices cell))
          (active_cells dsc) (zero_matrix (n_dofs dsc))"

record square_gradient =
  sg_L :: matrix
  sg_M :: matrix

definition SquareGradient :: "discretization \<Rightarrow> real \<Rightarrow> square_gradient" where
  "SquareGradient dsc alpha =
     \<lparr>sg_L = create_laplace_matrix dsc (alpha * alpha), sg_M = get_mass_matrix dsc\<rparr>"

definition SquareGradient_value :: "square_gradient \<Rightarrow> field \<Rightarrow> real" where
  "SquareGradient_value sg u =
     0.5 * inner (get_coefficients u) (mat_vec (sg_L sg) (get_coefficients u))"

definition SquareGradient_derivative :: "square_gradient \<Rightarrow> field \<Rightarrow> field" where
  "SquareGradient_derivative sg u =
     (let laplacian_u = new_field (get_discretization u)
      in laplacian_u\<lparr>get_coefficients := mat_vec (sg_L sg) (get_coefficients u)\<rparr>)"

definition SquareGradient_operator :: "square_gradient \<Rightarrow> linear_operator" where
  \<comment> \<open>\<^verbatim>\<open>linear_operator(*M) + linear_operator(L)\<close>\<close>
  "SquareGradient_operator sg = (\<lambda>v. vec_add (mat_vec (sg_M sg) v) (mat_vec (sg_L sg) v))"

fun SquareGradient_filter :: "solver_cg \<Rightarrow> square_gradient \<Rightarrow> field \<Rightarrow> field \<Rightarrow> field option" where
  "SquareGradient_filter solve sg _ f =
     (let u = new_field (get_discretization f);
          A = SquareGradient_operator sg
      in do {
        x \<leftarrow> solve (1000, 1 / 10 ^ 10) A (get_coefficients u) (get_coefficients f);
        Some (u\<lparr>get_coefficients := x\<rparr>)
      })"

section \<open>The total variation regularizer (class TotalVariation)\<close>

record total_variation =
  tv_alpha :: real

definition TotalVariation :: "discretization \<Rightarrow> real \<Rightarrow> total_variation" where
  "TotalVariation _ alpha = \<lparr>tv_alpha = alpha\<rparr>"

definition value_point :: "real \<Rightarrow> vec2 \<Rightarrow> real \<Rightarrow> real \<Rightarrow> real option" where
  \<comment> \<open>the body of the loop over the quadrature points in \<^verbatim>\<open>operator()\<close>\<close>
  "value_point alpha du_value dx total_variation =
     (let du = smul alpha du_value in
      do {
        a \<leftarrow> std_sqrt (dot du du + 1);
        let cell_graph_area = a - 1;
        Some (total_variation + cell_graph_area * dx)
      })"

definition TotalVariation_value :: "total_variation \<Rightarrow> field \<Rightarrow> real option" where
  "TotalVariation_value tv u =
     (let dsc = get_discretization u;
          n_q_points = quad_size dsc
      in for_each (active_cells dsc)
           (\<lambda>cell total_variation.
              let du_values = get_function_gradients dsc cell (get_coefficients u)
              in for_loop n_q_points
                   (\<lambda>q. value_point (tv_alpha tv) (du_values q) (JxW cell q))
                   total_variation)
           0)"

definition derivative_entry :: "real \<Rightarrow> vec2 \<Rightarrow> real \<Rightarrow> real \<Rightarrow> cell \<Rightarrow> nat \<Rightarrow> nat
    \<Rightarrow> (nat \<Rightarrow> real) \<Rightarrow> (nat \<Rightarrow> real) option" where
  \<comment> \<open>the body of the loop over \<open>i\<close> in \<^verbatim>\<open>derivative\<close>\<close>
  "derivative_entry alpha du dA dx cell q i cell_div_graph_normal =
     (let dphi = shape_gradient cell i q in
      do {
        r \<leftarrow> fdiv (dot (smul alpha du) dphi) dA;
        Some (cell_div_graph_normal(i := cell_div_graph_normal i + r * dx))
      })"

definition derivative_point :: "real \<Rightarrow> discretization \<Rightarrow> cell \<Rightarrow> (nat \<Rightarrow> vec2) \<Rightarrow> nat
    \<Rightarrow> (nat \<Rightarrow> real) \<Rightarrow> (nat \<Rightarrow> real) option" where
  \<comment> \<open>the body of the loop over the quadrature points in \<^verbatim>\<open>derivative\<close>\<close>
  "derivative_point alpha dsc cell du_values q cell_div_graph_normal =
     (let dx = JxW cell q;
          du = smul alpha (du_values q)
      in do {
        dA \<leftarrow> std_sqrt (dot du du + 1);
        for_loop (dofs_per_cell dsc) (derivative_entry alpha du dA dx cell q)
          cell_div_graph_normal
      })"

definition TotalVariation_derivative :: "total_variation \<Rightarrow> field \<Rightarrow> field option" where
  "TotalVariation_derivative tv u =
     (let discretization = get_discretization u;
          div_graph_normal = new_field discretization;
          n_q_points = quad_size discretization
      in do {
        coefficients \<leftarrow>
          for_each (active_cells discretization)
            (\<lambda>cell global.
               let du_values = get_function_gradients discretization cell (get_coefficients u)
               in do {
                 cell_div_graph_normal \<leftarrow>
                   for_loop n_q_points
                     (derivative_point (tv_alpha tv) discretization cell du_values)
                     (\<lambda>i. 0);
                 Some (distribute_vector (get_constraints discretization)
                         cell_div_graph_normal (dof_indices cell) global)
               })
            (get_coefficients div_graph_normal);
        Some (div_graph_normal\<lparr>get_coefficients := coefficients\<rparr>)
      })"

definition filter_entry :: "real \<Rightarrow> vec2 \<Rightarrow> real \<Rightarrow> real \<Rightarrow> cell \<Rightarrow> nat \<Rightarrow> nat \<Rightarrow> nat
    \<Rightarrow> (nat \<Rightarrow> nat \<Rightarrow> real) \<Rightarrow> (nat \<Rightarrow> nat \<Rightarrow> real) option" where
  \<comment> \<open>the body of the loop over \<open>j\<close> in \<^verbatim>\<open>filter\<close>\<close>
  "filter_entry alpha du dA dx cell q i j cell_matrix =
     (let phi_i = shape_value cell i q;
          d_phi_i = shape_gradient cell i q;
          phi_j = shape_value cell j q;
          d_phi_j = shape_gradient cell j q;
          cell_mass = phi_i * phi_j
      in do {
        tau \<leftarrow> vdiv du dA;
        cell_div_graph_normal \<leftarrow>
          fdiv (dot d_phi_i d_phi_j - dot d_phi_i tau * dot tau d_phi_j) dA;
        Some (cell_matrix(i := (cell_matrix i)
                (j := cell_matrix i j + (cell_mass + alpha * alpha * cell_div_graph_normal) * dx)))
      })"

definition filter_point :: "real \<Rightarrow> discretization \<Rightarrow> cell \<Rightarrow> (nat \<Rightarrow> vec2) \<Rightarrow> nat
    \<Rightarrow> (nat \<Rightarrow> nat \<Rightarrow> real) \<Rightarrow> (nat \<Rightarrow> nat \<Rightarrow> real) option" where
  \<comment> \<open>the body of the loop over the quadrature points in \<^verbatim>\<open>filter\<close>\<close>
  "filter_point alpha dsc cell du_values q cell_matrix =
     (let dx = JxW cell q;
          du = smul alpha (du_values q)
      in do {
        dA \<leftarrow> std_sqrt (dot du du + 1);
        for_loop (dofs_per_cell dsc)
          (\<lambda>i. for_loop (dofs_per_cell dsc) (filter_entry alpha du dA dx cell q i))
          cell_matrix
      })"

definition filter_cell_matrix :: "real \<Rightarrow> field \<Rightarrow> cell \<Rightarrow> (nat \<Rightarrow> nat \<Rightarrow> real) option" where
  \<comment> \<open>the matrix of one cell, from \<^verbatim>\<open>cell_matrix = 0\<close> to the end of the loop over \<open>q\<close>\<close>
  "filter_cell_matrix alpha u cell =
     (let discretization = get_discretization u;
          du_values = get_function_gradients discretization cell (get_coefficients u)
      in for_loop (quad_size discretization)
           (filter_point alpha discretization cell du_values)
           (\<lambda>i j. 0))"

definition filter_operator :: "real \<Rightarrow> field \<Rightarrow> matrix option" where
  \<comment> \<open>the matrix \<open>A\<close> of \<^verbatim>\<open>filter\<close>: set to zero, then assembled cell by cell\<close>
  "filter_operator alpha u =
     (let discretization = get_discretization u
      in for_each (active_cells discretization)
           (\<lambda>cell A. do {
              cell_matrix \<leftarrow> filter_cell_matrix alpha u cell;
              Some (distribute_matrix (get_constraints discretization)
                      cell_matrix (dof_indices cell) A)
            })
           (zero_matrix (n_dofs discretization)))"

text \<open>
  \<^verbatim>\<open>linear_solve\<close> takes the matrix, the vector to solve into, the right-hand side
  and the constraints. It is declared in \<^verbatim>\<open>icepack/numerics/linear_solve.hpp\<close>, which
  is not part of the sources modelled here: \<^verbatim>\<open>filter\<close> takes it as a parameter.
\<close>

type_synonym linear_solver = "matrix \<Rightarrow> real list \<Rightarrow> real list \<Rightarrow> constraints \<Rightarrow> real list option"

definition TotalVariation_filter :: "linear_solver \<Rightarrow> total_variation \<Rightarrow> field \<Rightarrow> field \<Rightarrow> field option" where
  "TotalVariation_filter linear_solve tv u f =
     (let discretization = get_discretization u;
          v = new_field discretization
      in do {
        A \<leftarrow> filter_operator (tv_alpha tv) u;
        x \<leftarrow> linear_solve A (get_coefficients v) (get_coefficients f)
               (get_constraints (get_discretization u));
        Some (v\<lparr>get_coefficients := x\<rparr>)
      })"

text \<open>
  Modelled from the spec: the two linear solves, whose code (the library's conjugate
  gradient iteration and \<^verbatim>\<open>linear_solve\<close>) is not part of the sources. The specification
  has \<^verbatim>\<open>filter\<close> solve \<open>(M + L) v = f\<close>, respectively \<open>A(u_ref) v = f\<close>, for \<open>v\<close>, and
  states the round trip for a solve that is exact. An exact solve of the operator
  \<open>A\<close> on vectors of length \<open>n\<close> returns a solution of that length when there is one,
  and fails only when there is none.
\<close>

definition exact_cg :: "solver_cg \<Rightarrow> linear_operator \<Rightarrow> nat \<Rightarrow> bool" where
  "exact_cg solve A n \<longleftrightarrow>
     (\<forall>control x0 b. length x0 = n \<longrightarrow>
        (case solve control A x0 b of
           Some x \<Rightarrow> length x = n \<and> A x = b
         | None \<Rightarrow> \<not> (\<exists>x. length x = n \<and> A x = b)))"

definition exact_linear_solve :: "linear_solver \<Rightarrow> matrix \<Rightarrow> nat \<Rightarrow> bool" where
  "exact_linear_solve linear_solve A n \<longleftrightarrow>
     (\<forall>x0 b cs. length x0 = n \<longrightarrow>
        (case linear_solve A x0 b cs of
           Some x \<Rightarrow> length x = n \<and> mat_vec A x = b
         | None \<Rightarrow> \<not> (\<exists>x. length x = n \<and> mat_vec A x = b)))"

section \<open>Quantities the specification names\<close>

text \<open>
  At a quadrature point where the reference field has the gradient \<open>du_value\<close>, the
  specification writes \<open>dA = sqrt ((\<alpha> du)\<^sup>2 + 1)\<close> for the area element of the graph and
  \<open>\<tau> = (\<alpha> du) / dA\<close> for the graph normal, and gives the entry \<open>(i, j)\<close> of the matrix of
  a cell as the sum over the quadrature points of
  \<open>(\<phi>\<^sub>i \<phi>\<^sub>j + \<alpha>\<^sup>2 (\<nabla>\<phi>\<^sub>i \<cdot> \<nabla>\<phi>\<^sub>j - (\<nabla>\<phi>\<^sub>i \<cdot> \<tau>) (\<tau> \<cdot> \<nabla>\<phi>\<^sub>j)) / dA) dx\<close>. These are written here
  from those words, with the division of \<^typ>\<open>real\<close>, to be compared with what the
  loops of the program compute.
\<close>

definition graph_area :: "real \<Rightarrow> vec2 \<Rightarrow> real" where
  "graph_area alpha du_value = sqrt (dot (smul alpha du_value) (smul alpha du_value) + 1)"

definition graph_normal :: "real \<Rightarrow> vec2 \<Rightarrow> vec2" where
  "graph_normal alpha du_value =
     (fst (smul alpha du_value) / graph_area alpha du_value,
      snd (smul alpha du_value) / graph_area alpha du_value)"

definition filter_integrand :: "real \<Rightarrow> field \<Rightarrow> cell \<Rightarrow> nat \<Rightarrow> nat \<Rightarrow> nat \<Rightarrow> real" where
  "filter_integrand alpha u cell q i j =
     (let du_value = get_function_gradients (get_discretization u) cell (get_coefficients u) q;
          dA = graph_area alpha du_value;
          tau = graph_normal alpha du_value;
          phi_i = shape_value cell i q; d_phi_i = shape_gradient cell i q;
          phi_j = shape_value cell j q; d_phi_j = shape_gradient cell j q
      in (phi_i * phi_j
          + alpha * alpha * ((dot d_phi_i d_phi_j - dot d_phi_i tau * dot tau d_phi_j) / dA))
         * JxW cell q)"

section \<open>A small discretization for concrete evaluation\<close>

text \<open>
  One cell with two degrees of freedom and one quadrature point of weight 1: the
  shape functions have the value 1/2 and the gradients \<open>(-1, 0)\<close> and \<open>(1, 0)\<close> there.
  There are no constraints, so that distributing a local vector or matrix adds it
  into the global one at the cell's indices. The linear solvers solve a system of
  two equations by Cramer's rule and fail on any other; the conjugate gradient solver
  reads the matrix off the operator at the unit vectors.
\<close>

definition scatter_vector :: "(nat \<Rightarrow> real) \<Rightarrow> nat list \<Rightarrow> real list \<Rightarrow> real list" where
  "scatter_vector local_vector dofs global =
     fold (\<lambda>i g. g[dofs ! i := g ! (dofs ! i) + local_vector i]) [0..<length dofs] global"

definition scatter_matrix :: "(nat \<Rightarrow> nat \<Rightarrow> real) \<Rightarrow> nat list \<Rightarrow> matrix \<Rightarrow> matrix" where
  "scatter_matrix local_matrix dofs global =
     fold (\<lambda>i. fold (\<lambda>j A. A[dofs ! i := (A ! (dofs ! i))
                                 [dofs ! j := A ! (dofs ! i) ! (dofs ! j) + local_matrix i j]])
                 [0..<length dofs])
          [0..<length dofs] global"

definition no_constraints :: constraints where
  "no_constraints = \<lparr>distribute_vector = scatter_vector, distribute_matrix = scatter_matrix\<rparr>"

definition sample_cell :: cell where
  "sample_cell =
     \<lparr>JxW = (\<lambda>q. 1),
      shape_value = (\<lambda>i q. 1 / 2),
      shape_gradient = (\<lambda>i q. if i = 0 then (- 1, 0) else (1, 0)),
      dof_indices = [0, 1]\<rparr>"

definition sample_discretization :: discretization where
  "sample_discretization =
     \<lparr>quad_size = 1, dofs_per_cell = 2, active_cells = [sample_cell], n_dofs = 2,
      get_constraints = no_constraints,
      get_mass_matrix = [[1 / 3, 1 / 6], [1 / 6, 1 / 3]]\<rparr>"

definition sample_field :: "real list \<Rightarrow> field" where
  "sample_field cs = \<lparr>get_discretization = sample_discretization, get_coefficients = cs\<rparr>"

definition cramer2 :: "matrix \<Rightarrow> real list \<Rightarrow> real list option" where
  "cramer2 A b =
     (let a11 = A ! 0 ! 0; a12 = A ! 0 ! 1; a21 = A ! 1 ! 0; a22 = A ! 1 ! 1;
          det = a11 * a22 - a12 * a21
      in if length b \<noteq> 2 \<or> det = 0 then None
         else Some [(b ! 0 * a22 - a12 * b ! 1) / det, (a11 * b ! 1 - b ! 0 * a21) / det])"

definition sample_linear_solve :: linear_solver where
  "sample_linear_solve A x0 b cs = cramer2 A b"

definition sample_cg :: solver_cg where
  "sample_cg control A x0 b =
     cramer2 [[A [1, 0] ! 0, A [0, 1] ! 0], [A [1, 0] ! 1, A [0, 1] ! 1]] b"

definition sample_square_gradient :: square_gradient where
  "sample_square_gradient = SquareGradient sample_discretization 1"

section \<open>A bilinear cell with one quadrature point\<close>

text \<open>
  The unit square as one cell, with the four bilinear shape functions of its vertices
  \<open>(0,0)\<close>, \<open>(1,0)\<close>, \<open>(0,1)\<close>, \<open>(1,1)\<close> and the one-point Gauss rule: at the centre every
  shape function has the value 1/4 and the gradient \<open>(\<plusminus>1/2, \<plusminus>1/2)\<close>, and the weight is the
  area 1. The mass matrix is the one this rule gives, 1/16 in every entry. The
  coefficient vector \<open>(1, -1, -1, 1)\<close> has the value 0 and the gradient 0 at the centre.
  The solver solves the system of the mass matrix plus the Laplace matrix of this
  discretization in closed form: the system has a solution exactly when the right-hand
  side is orthogonal to \<open>(1, -1, -1, 1)\<close>.
\<close>

definition hourglass_cell :: cell where
  "hourglass_cell =
     \<lparr>JxW = (\<lambda>q. 1),
      shape_value = (\<lambda>i q. 1 / 4),
      shape_gradient = (\<lambda>i q. (if i = 1 \<or> i = 3 then 1 / 2 else - (1 / 2),
                               if i = 2 \<or> i = 3 then 1 / 2 else - (1 / 2))),
      dof_indices = [0, 1, 2, 3]\<rparr>"

definition hourglass_discretization :: discretization where
  "hourglass_discretization =
     \<lparr>quad_size = 1, dofs_per_cell = 4, active_cells = [hourglass_cell], n_dofs = 4,
      get_constraints = no_constraints,
      get_mass_matrix = [[1 / 16, 1 / 16, 1 / 16, 1 / 16], [1 / 16, 1 / 16, 1 / 16, 1 / 16],
                         [1 / 16, 1 / 16, 1 / 16, 1 / 16], [1 / 16, 1 / 16, 1 / 16, 1 / 16]]\<rparr>"

definition hourglass_field :: "real list \<Rightarrow> field" where
  "hourglass_field cs = \<lparr>get_discretization = hourglass_discretization, get_coefficients = cs\<rparr>"


definition hourglass_operator_ML :: linear_operator where
  "hourglass_operator_ML =
     (\<lambda>v. vec_add (mat_vec (get_mass_matrix hourglass_discretization) v)
                  (mat_vec (create_laplace_matrix hourglass_discretization (1 * 1)) v))"

section \<open>Properties of the rate factor and the viscosity\<close>

lemma rate_factor_cold:
  assumes "ideal_gas c * T \<noteq> 0" and "T < 263.215"
  shows "rate_factor c T = Some (A0_cold c * exp (- 60 / (ideal_gas c * T)))"
  using assms by (simp add: rate_factor_def fdiv_def transition_temperature_def Q_cold_def)

lemma rate_factor_warm:
  assumes "ideal_gas c * T \<noteq> 0" and "263.215 \<le> T"
  shows "rate_factor c T = Some (A0_warm c * exp (- 139 / (ideal_gas c * T)))"
  using assms by (simp add: rate_factor_def fdiv_def transition_temperature_def Q_warm_def)

lemma rate_factor_positive:
  assumes "0 < year_in_sec c" and "ideal_gas c * T \<noteq> 0"
  shows "\<exists>A. rate_factor c T = Some A \<and> 0 < A"
proof (cases "T < 263.215")
  case True
  have "0 < A0_cold c" using assms(1) by (simp add: A0_cold_def)
  then show ?thesis using rate_factor_cold [OF assms(2) True] by simp
next
  case False
  have "0 < A0_warm c" using assms(1) by (simp add: A0_warm_def)
  then show ?thesis using rate_factor_warm [OF assms(2)] False by simp
qed

lemma viscosity_formula:
  assumes "rate_factor c T = Some A" and "0 < A" and "0 < s"
  shows "viscosity c T s = Some ((A * s * s) powr (- 1 / 3) / 2)"
proof -
  have "0 < A * s * s" using assms(2,3) by simp
  then show ?thesis using assms(1) by (simp add: viscosity_def std_pow_def)
qed

text \<open>
  Claim C2. For every temperature \<open>T > 0\<close> (and a nonzero gas constant), the rate factor
  is the cold Arrhenius branch \<open>A0_cold * exp (- 60 / (R * T))\<close> when \<open>T < 263.215\<close> and
  the warm branch \<open>A0_warm * exp (- 139 / (R * T))\<close> when \<open>T \<ge> 263.215\<close>; the transition
  temperature itself takes the warm branch. Nothing is said about continuity.
\<close>

theorem rate_factor_piecewise:
  assumes "0 < T" and "0 < ideal_gas c"
  shows "rate_factor c T =
           (if T < 263.215 then Some (A0_cold c * exp (- 60 / (ideal_gas c * T)))
            else Some (A0_warm c * exp (- 139 / (ideal_gas c * T))))
         \<and> rate_factor c 263.215 = Some (A0_warm c * exp (- 139 / (ideal_gas c * 263.215)))
         \<and> Q_cold = 60 \<and> Q_warm = 139"
proof -
  have nz: "ideal_gas c * T \<noteq> 0" using assms by simp
  have nz': "ideal_gas c * 263.215 \<noteq> 0" using assms(2) by simp
  have "rate_factor c T =
           (if T < 263.215 then Some (A0_cold c * exp (- 60 / (ideal_gas c * T)))
            else Some (A0_warm c * exp (- 139 / (ideal_gas c * T))))"
    using rate_factor_cold [OF nz] rate_factor_warm [OF nz] by simp
  moreover have "rate_factor c 263.215 = Some (A0_warm c * exp (- 139 / (ideal_gas c * 263.215)))"
    using rate_factor_warm [OF nz'] by simp
  ultimately show ?thesis by (simp add: Q_cold_def Q_warm_def)
qed

theorem rate_factor_piecewise_witness:
  "rate_factor sample_constants 250 =
     Some (A0_cold sample_constants * exp (- 60 / (ideal_gas sample_constants * 250)))
   \<and> rate_factor sample_constants 270 =
     Some (A0_warm sample_constants * exp (- 139 / (ideal_gas sample_constants * 270)))"
proof -
  have g: "0 < ideal_gas sample_constants" by (simp add: sample_constants_def)
  have c: "(0::real) < 250" and w: "(0::real) < 270" by simp_all
  have "rate_factor sample_constants 250 =
     Some (A0_cold sample_constants * exp (- 60 / (ideal_gas sample_constants * 250)))"
    using rate_factor_piecewise [OF c g, THEN conjunct1] by simp
  moreover have "rate_factor sample_constants 270 =
     Some (A0_warm sample_constants * exp (- 139 / (ideal_gas sample_constants * 270)))"
    using rate_factor_piecewise [OF w g, THEN conjunct1] by simp
  ultimately show ?thesis by simp
qed

text \<open>
  In exact arithmetic the viscosity is strictly decreasing in the strain rate. This
  is a fact of the idealisation over \<^typ>\<open>real\<close> only: in doubles two strain rates that
  are close enough have the same viscosity, and the product \<open>A s s\<close> overflows or
  underflows at the ends of the range.
\<close>

lemma exact_viscosity_strictly_decreasing:
  assumes "0 < T" and "0 < s1" and "s1 < s2"
    and "0 < year_in_sec c" and "0 < ideal_gas c"
  shows "\<exists>v1 v2. viscosity c T s1 = Some v1 \<and> viscosity c T s2 = Some v2 \<and> v2 < v1"
proof -
  have nz: "ideal_gas c * T \<noteq> 0" using assms(1,5) by simp
  obtain A where A: "rate_factor c T = Some A" "0 < A"
    using rate_factor_positive [OF assms(4) nz] by blast
  have s2: "0 < s2" using assms(2,3) by simp
  have "s1 * s1 < s2 * s2"
    using assms(2,3) by (simp add: mult_strict_mono)
  then have lt: "A * s1 * s1 < A * s2 * s2"
    using A(2) by (simp add: mult.assoc)
  have pos: "0 < A * s1 * s1" using A(2) assms(2) by simp
  have "(A * s2 * s2) powr (- 1 / 3) < (A * s1 * s1) powr (- 1 / 3)"
    using powr_less_mono2_neg [of "- 1 / 3" "A * s1 * s1" "A * s2 * s2"] pos lt by simp
  then have "(A * s2 * s2) powr (- 1 / 3) / 2 < (A * s1 * s1) powr (- 1 / 3) / 2"
    by simp
  with viscosity_formula [OF A assms(2)] viscosity_formula [OF A s2]
  show ?thesis by blast
qed

lemma exact_viscosity_strictly_decreasing_instance:
  "\<exists>v1 v2. viscosity sample_constants 250 1 = Some v1
     \<and> viscosity sample_constants 250 2 = Some v2 \<and> v2 < v1"
  using exact_viscosity_strictly_decreasing [of 250 1 2 sample_constants]
  by (simp add: sample_constants_def)

section \<open>Properties of the constitutive tensors\<close>

lemma identity_tensor_contract: "double_contract identity_tensor e = e"
  by (cases e) (simp add: double_contract_def identity_tensor_def scalar_product_def)

lemma sum_squares_nonneg: "0 \<le> (scalar_product eps eps + first_invariant eps * first_invariant eps) / 2"
  by (simp add: scalar_product_def)

lemma std_sqrt_eff: "std_sqrt ((scalar_product eps eps + first_invariant eps * first_invariant eps) / 2) = Some (effective_strain_rate eps)"
  using sum_squares_nonneg [of eps] by (simp add: std_sqrt_def effective_strain_rate_def)

lemma eff_sq: "effective_strain_rate eps * effective_strain_rate eps = (scalar_product eps eps + first_invariant eps * first_invariant eps) / 2"
  using sum_squares_nonneg [of eps] by (simp add: effective_strain_rate_def)

lemma nonlinear_eq:
  assumes "viscosity c T (effective_strain_rate eps) = Some v"
  shows "nonlinear c T h eps = Some (scale4 (2 * (h * v)) SSA_C)"
  using assms by (simp add: nonlinear_def std_sqrt_eff Let_def)

lemma linearized_eq:
  assumes "viscosity c T (effective_strain_rate eps) = Some v" and "effective_strain_rate eps \<noteq> 0"
  shows "linearized c T h eps = Some (scale4 (2 * (h * v)) (sub4 SSA_C (scale4 (1 / 3)
     (outer_product (scale2 (1 / effective_strain_rate eps) (add2 eps (scale2 (first_invariant eps) SSA_I)))
          (scale2 (1 / effective_strain_rate eps) (add2 eps (scale2 (first_invariant eps) SSA_I)))))))"
  using assms by (simp add: linearized_def std_sqrt_eff Let_def div2_def scale2_def)

lemma viscosity_defined:
  assumes "0 < T" and "0 < s" and "0 < year_in_sec c" and "0 < ideal_gas c"
  shows "\<exists>A. 0 < A \<and> rate_factor c T = Some A \<and> viscosity c T s = Some ((A * s * s) powr (- 1 / 3) / 2)"
proof -
  have nz: "ideal_gas c * T \<noteq> 0" using assms by simp
  obtain A where A: "rate_factor c T = Some A" "0 < A"
    using rate_factor_positive [OF assms(3) nz] by blast
  show ?thesis using viscosity_formula [OF A assms(2)] A by blast
qed

lemma viscosity_zero: "viscosity c T 0 = None"
  by (cases "rate_factor c T") (simp_all add: viscosity_def std_pow_def)

lemma contract_C: "scalar_product (double_contract SSA_C e) e = scalar_product e e + first_invariant e * first_invariant e"
  by (cases e) (simp add: SSA_C_def SSA_II_def SSA_I_def identity_tensor_def unit_symmetric_tensor_def
     add4_def add2_def outer_product_def scale2_def double_contract_def scalar_product_def first_invariant_def algebra_simps)

lemma contract_scale4: "double_contract (scale4 k t) e = scale2 k (double_contract t e)"
  by (simp add: double_contract_def scale4_def scale2_def scalar_product_def algebra_simps)

lemma contract_sub4: "double_contract (sub4 s t) e = sub2 (double_contract s e) (double_contract t e)"
  by (simp add: double_contract_def sub4_def sub2_def scalar_product_def algebra_simps)

lemma contract_outer: "double_contract (outer_product a b) e = scale2 (scalar_product b e) a"
  by (simp add: double_contract_def outer_product_def scale2_def scalar_product_def algebra_simps)

lemma sp_scale2: "scalar_product (scale2 k a) e = k * scalar_product a e"
  by (simp add: scale2_def scalar_product_def algebra_simps)

lemma sp_scale2_right: "scalar_product a (scale2 k e) = k * scalar_product a e"
  by (simp add: scale2_def scalar_product_def algebra_simps)

lemma sp_sub2: "scalar_product (sub2 a b) e = scalar_product a e - scalar_product b e"
  by (simp add: sub2_def scalar_product_def algebra_simps)

lemma sp_flow: "scalar_product (add2 e (scale2 (first_invariant e) SSA_I)) e = scalar_product e e + first_invariant e * first_invariant e"
  by (simp add: add2_def scale2_def SSA_I_def unit_symmetric_tensor_def scalar_product_def first_invariant_def algebra_simps)

lemma tangent_secant_ratio:
  assumes "viscosity c T (effective_strain_rate eps) = Some v" and "effective_strain_rate eps \<noteq> 0"
  and  "linearized c T h eps = Some Cl" and  "nonlinear c T h eps = Some Cn"
 shows "scalar_product (double_contract Cl eps) eps = (1 / 3) * scalar_product (double_contract Cn eps) eps"
proof -
  define e where "e = effective_strain_rate eps"
  define S where "S = scalar_product eps eps + first_invariant eps * first_invariant eps"
  have S: "S = 2 * (e * e)" by (simp add: eff_sq S_def e_def)
  have e: "e \<noteq> 0" using assms(2) by (simp add: e_def)
  have n: "scalar_product (double_contract Cn eps) eps = 2 * (h * v) * S"
    using nonlinear_eq [OF assms(1), of h] assms(4)
    by (simp add: contract_scale4 sp_scale2 contract_C S_def)
  have l: "scalar_product (double_contract Cl eps) eps = 2 * (h * v) * (S - (1 / 3) * ((1 / e) * ((1 / e) * S) * S))"
    using linearized_eq [OF assms(1,2), of h] assms(3)
    by (simp add: contract_scale4 sp_scale2 contract_sub4 sp_sub2 contract_C contract_outer sp_flow S_def e_def)
  have "(1 / e) * ((1 / e) * S) * S = 2 * S"
    using e by (simp add: S)
  then have "S - (1 / 3) * ((1 / e) * ((1 / e) * S) * S) = (1 / 3) * S"
    by simp
  then show ?thesis using n l by simp
qed

lemma effective_strain_rate_unit: "effective_strain_rate (Sym2 1 0 0) = 1"
  by (simp add: effective_strain_rate_def scalar_product_def first_invariant_def)

lemma effective_strain_rate_zero: "effective_strain_rate (Sym2 0 0 0) = 0"
  by (simp add: effective_strain_rate_def scalar_product_def first_invariant_def)

lemma sample_constants_positive:
  "0 < year_in_sec sample_constants" "0 < ideal_gas sample_constants"
  by (simp_all add: sample_constants_def)

text \<open>
  Claim C1, as the specification states it: \<open>nonlinear_tensor(T, h, \<epsilon>)\<close> is
  \<open>2\<nu>(2 I4 + I2 \<otimes> I2)\<close>. The program returns another tensor at \<open>T = 250\<close>, \<open>h = 1\<close>
  and the strain rate with the single component \<open>[0][0] = 1\<close> (effective strain rate 1):
  the two differ in the component \<open>[0][1][0][1]\<close>, which is \<open>\<nu>\<close> in the program and
  \<open>2\<nu>\<close> in the specification.
\<close>

theorem nonlinear_tensor_spec_counterexample:
  "0 < effective_strain_rate (Sym2 1 0 0)
   \<and> nonlinear sample_constants 250 1 (Sym2 1 0 0) \<noteq> None
   \<and> nonlinear sample_constants 250 1 (Sym2 1 0 0)
       \<noteq> nonlinear_tensor_spec sample_constants 250 1 (Sym2 1 0 0)"
proof -
  obtain A where A: "0 < A"
    "viscosity sample_constants 250 1 = Some ((A * 1 * 1) powr (- 1 / 3) / 2)"
    using viscosity_defined [of 250 1 sample_constants] sample_constants_positive by auto
  define v where "v = (A * 1 * 1) powr (- 1 / 3) / 2"
  have v: "viscosity sample_constants 250 (effective_strain_rate (Sym2 1 0 0)) = Some v"
    using A(2) by (simp add: v_def effective_strain_rate_unit)
  have "0 < v" using A(1) by (simp add: v_def)
  then have "c01 (row2 (scale4 (2 * (1 * v)) SSA_C))
      \<noteq> c01 (row2 (scale4 (2 * (1 * v))
              (add4 (scale4 2 identity_tensor)
                    (outer_product unit_symmetric_tensor unit_symmetric_tensor))))"
    by (simp add: SSA_C_def SSA_II_def SSA_I_def identity_tensor_def unit_symmetric_tensor_def
        scale4_def add4_def outer_product_def scale2_def add2_def)
  then have "scale4 (2 * (1 * v)) SSA_C
      \<noteq> scale4 (2 * (1 * v))
              (add4 (scale4 2 identity_tensor)
                    (outer_product unit_symmetric_tensor unit_symmetric_tensor))"
    by metis
  then show ?thesis
    using nonlinear_eq [OF v, of 1] v
    by (simp add: nonlinear_tensor_spec_def effective_strain_rate_unit)
qed

text \<open>
  Claim C1, amended. For every temperature \<open>T > 0\<close>, thickness \<open>h\<close> and symmetric tensor
  \<open>\<epsilon>\<close> with positive effective strain rate \<open>\<epsilon>e\<close>, the viscosity at \<open>\<epsilon>e\<close> is defined and
  \<open>nonlinear(T, h, \<epsilon>)\<close> is \<open>2\<nu>(I4 + I2 \<otimes> I2)\<close> with \<open>\<nu> = h * viscosity(T, \<epsilon>e)\<close>, where
  \<open>I2\<close> is the rank-2 identity and \<open>I4\<close> the rank-4 identity (the tensor whose double
  contraction with a symmetric tensor returns that tensor).
\<close>

theorem nonlinear_tensor_value:
  assumes "0 < T" and "0 < effective_strain_rate eps"
    and "0 < year_in_sec c" and "0 < ideal_gas c"
  shows "\<exists>v. viscosity c T (effective_strain_rate eps) = Some v
           \<and> nonlinear c T h eps =
               Some (scale4 (2 * (h * v))
                      (add4 identity_tensor
                            (outer_product unit_symmetric_tensor unit_symmetric_tensor)))
           \<and> (\<forall>e. double_contract identity_tensor e = e)
           \<and> unit_symmetric_tensor = Sym2 1 1 0"
proof -
  obtain v where v: "viscosity c T (effective_strain_rate eps) = Some v"
    using viscosity_defined [OF assms(1,2,3,4)] by blast
  have "nonlinear c T h eps =
          Some (scale4 (2 * (h * v))
                 (add4 identity_tensor
                       (outer_product unit_symmetric_tensor unit_symmetric_tensor)))"
    using nonlinear_eq [OF v, of h] by (simp add: SSA_C_def SSA_II_def SSA_I_def)
  then show ?thesis
    using v by (simp add: identity_tensor_contract unit_symmetric_tensor_def)
qed

theorem nonlinear_tensor_value_witness:
  "\<exists>v. viscosity sample_constants 250 (effective_strain_rate (Sym2 1 0 0)) = Some v
     \<and> nonlinear sample_constants 250 1 (Sym2 1 0 0) =
         Some (scale4 (2 * (1 * v))
                (add4 identity_tensor
                      (outer_product unit_symmetric_tensor unit_symmetric_tensor)))"
proof -
  have T: "(0::real) < 250" by simp
  have e: "0 < effective_strain_rate (Sym2 1 0 0)" by (simp add: effective_strain_rate_unit)
  from nonlinear_tensor_value [OF T e sample_constants_positive, of 1]
  show ?thesis by blast
qed

text \<open>
  In exact arithmetic, for \<open>T > 0\<close> and positive constants, the viscosity is defined at
  every strain rate \<open>s > 0\<close> and \<open>linearized\<close> at every positive effective strain rate; at
  \<open>s = 0\<close> the power has a pole and at a zero effective strain rate \<open>linearized\<close> divides
  by zero, and neither function guards against it. The first half is a fact of the
  idealisation over \<^typ>\<open>real\<close> only: in doubles \<open>A s s\<close> and the exponential underflow
  to zero at small \<open>s\<close> and small \<open>T\<close>, and the pole is reached there too.
\<close>

lemma exact_viscosity_singularity:
  assumes "0 < T" and "0 < year_in_sec c" and "0 < ideal_gas c"
  shows "(0 < s \<longrightarrow>
            (\<exists>A. rate_factor c T = Some A
                 \<and> viscosity c T s = Some ((A * s * s) powr (- 1 / 3) / 2)))
         \<and> (0 < effective_strain_rate eps \<longrightarrow> (\<exists>Cl. linearized c T h eps = Some Cl))
         \<and> viscosity c T 0 = None
         \<and> (effective_strain_rate eps = 0 \<longrightarrow> linearized c T h eps = None)"
proof -
  have a: "\<exists>A. rate_factor c T = Some A
                 \<and> viscosity c T s = Some ((A * s * s) powr (- 1 / 3) / 2)" if "0 < s"
    using viscosity_defined [OF assms(1) that assms(2,3)] by blast
  have b: "\<exists>Cl. linearized c T h eps = Some Cl" if e: "0 < effective_strain_rate eps"
  proof -
    obtain v where v: "viscosity c T (effective_strain_rate eps) = Some v"
      using viscosity_defined [OF assms(1) e assms(2,3)] by blast
    have "effective_strain_rate eps \<noteq> 0" using e by simp
    from linearized_eq [OF v this] show ?thesis by blast
  qed
  have d: "linearized c T h eps = None" if "effective_strain_rate eps = 0"
    using that by (simp add: linearized_def std_sqrt_eff div2_def)
  show ?thesis using a b d viscosity_zero by blast
qed

lemma exact_viscosity_singularity_instance:
  "(\<exists>A. rate_factor sample_constants 250 = Some A
        \<and> viscosity sample_constants 250 1 = Some ((A * 1 * 1) powr (- 1 / 3) / 2))
   \<and> (\<exists>Cl. linearized sample_constants 250 1 (Sym2 1 0 0) = Some Cl)
   \<and> viscosity sample_constants 250 0 = None
   \<and> linearized sample_constants 250 1 (Sym2 0 0 0) = None"
proof -
  have T: "(0::real) < 250" by simp
  note w = exact_viscosity_singularity [OF T sample_constants_positive]
  have "\<exists>A. rate_factor sample_constants 250 = Some A
        \<and> viscosity sample_constants 250 1 = Some ((A * 1 * 1) powr (- 1 / 3) / 2)"
    using w [of 1] by simp
  moreover have "\<exists>Cl. linearized sample_constants 250 1 (Sym2 1 0 0) = Some Cl"
    using w [of _ "Sym2 1 0 0" 1] by (simp add: effective_strain_rate_unit)
  moreover have "viscosity sample_constants 250 0 = None"
    using w by blast
  moreover have "linearized sample_constants 250 1 (Sym2 0 0 0) = None"
    using w [of _ "Sym2 0 0 0" 1] by (simp add: effective_strain_rate_zero)
  ultimately show ?thesis by blast
qed

text \<open>
  In exact arithmetic the double contraction of the tangent tensor with \<open>\<epsilon>\<close> is one
  third of that of the secant tensor. This is a fact of the idealisation over
  \<^typ>\<open>real\<close> only: in doubles the two sides agree up to rounding.
\<close>

lemma exact_tangent_secant_third:
  assumes "0 < T" and "0 < effective_strain_rate eps"
    and "0 < year_in_sec c" and "0 < ideal_gas c"
  shows "\<exists>Cl Cn. linearized c T h eps = Some Cl \<and> nonlinear c T h eps = Some Cn
           \<and> scalar_product (double_contract Cl eps) eps
               = (1 / 3) * scalar_product (double_contract Cn eps) eps"
proof -
  obtain v where v: "viscosity c T (effective_strain_rate eps) = Some v"
    using viscosity_defined [OF assms(1,2,3,4)] by blast
  have nz: "effective_strain_rate eps \<noteq> 0" using assms(2) by simp
  obtain Cl where Cl: "linearized c T h eps = Some Cl"
    using linearized_eq [OF v nz] by blast
  obtain Cn where Cn: "nonlinear c T h eps = Some Cn"
    using nonlinear_eq [OF v] by blast
  from tangent_secant_ratio [OF v nz Cl Cn] Cl Cn show ?thesis by blast
qed

lemma exact_tangent_secant_third_instance:
  "\<exists>Cl Cn. linearized sample_constants 250 1 (Sym2 1 0 0) = Some Cl
     \<and> nonlinear sample_constants 250 1 (Sym2 1 0 0) = Some Cn
     \<and> scalar_product (double_contract Cl (Sym2 1 0 0)) (Sym2 1 0 0)
         = (1 / 3) * scalar_product (double_contract Cn (Sym2 1 0 0)) (Sym2 1 0 0)"
proof -
  have T: "(0::real) < 250" by simp
  have e: "0 < effective_strain_rate (Sym2 1 0 0)" by (simp add: effective_strain_rate_unit)
  from exact_tangent_secant_third [OF T e sample_constants_positive, of 1]
  show ?thesis .
qed

section \<open>Properties of the loops of the regularizers\<close>

lemma dot_self_nonneg: "0 \<le> dot a a"
  by (simp add: dot_def)

lemma graph_area_ge_1: "1 \<le> graph_area alpha g"
  by (simp add: graph_area_def dot_self_nonneg)

lemma std_sqrt_graph_area:
  "std_sqrt (dot (smul alpha g) (smul alpha g) + 1) = Some (graph_area alpha g)"
  using dot_self_nonneg [of "smul alpha g"] by (simp add: std_sqrt_def graph_area_def)

lemma graph_area_nonzero: "graph_area alpha g \<noteq> 0"
  using graph_area_ge_1 [of alpha g] by simp



lemma for_each_fold:
  assumes "\<And>x s. body x s = Some (g x s)"
  shows "for_each xs body s = Some (fold g xs s)"
  by (induction xs arbitrary: s) (simp_all add: assms)







lemma filter_entry_eq:
  "filter_entry alpha (smul alpha g) (graph_area alpha g) dx cell q i j m =
     Some (m(i := (m i)(j := m i j +
        (shape_value cell i q * shape_value cell j q
         + alpha * alpha * ((dot (shape_gradient cell i q) (shape_gradient cell j q)
              - dot (shape_gradient cell i q) (graph_normal alpha g)
                * dot (graph_normal alpha g) (shape_gradient cell j q)) / graph_area alpha g))
        * dx)))"
  by (simp add: filter_entry_def Let_def vdiv_def fdiv_def graph_area_nonzero graph_normal_def)

lemma loop_j:
  fixes m :: "nat \<Rightarrow> nat \<Rightarrow> real"
  assumes "\<And>j m. body j m = Some (m(i := (m i)(j := m i j + e j)))"
  shows "for_loop n body m = Some (\<lambda>i' j'. m i' j' + (if i' = i \<and> j' < n then e j' else 0))"
proof (induction n)
  case 0
  show ?case by (simp add: fun_eq_iff)
next
  case (Suc n)
  show ?case
    by (simp add: Suc) (simp add: assms fun_eq_iff less_Suc_eq)
qed

lemma loop_i:
  fixes m :: "nat \<Rightarrow> nat \<Rightarrow> real"
  assumes "\<And>i m. body i m = Some (\<lambda>i' j'. m i' j' + (if i' = i \<and> j' < k then e i j' else 0))"
  shows "for_loop n body m = Some (\<lambda>i' j'. m i' j' + (if i' < n \<and> j' < k then e i' j' else 0))"
proof (induction n)
  case 0
  show ?case by (simp add: fun_eq_iff)
next
  case (Suc n)
  show ?case
    by (simp add: Suc) (simp add: assms fun_eq_iff less_Suc_eq)
qed

lemma loop_q:
  fixes m :: "nat \<Rightarrow> nat \<Rightarrow> real"
  assumes "\<And>q m. body q m = Some (\<lambda>i j. m i j + (if i < k \<and> j < k then e q i j else 0))"
  shows "for_loop n body m = Some (\<lambda>i j. m i j + (if i < k \<and> j < k then (\<Sum>q<n. e q i j) else 0))"
proof (induction n)
  case 0
  show ?case by (simp add: fun_eq_iff)
next
  case (Suc n)
  show ?case
    by (simp add: Suc) (simp add: assms fun_eq_iff)
qed

lemma filter_point_eq:
  "filter_point alpha (get_discretization u) cell
      (get_function_gradients (get_discretization u) cell (get_coefficients u)) q m =
   Some (\<lambda>i j. m i j + (if i < dofs_per_cell (get_discretization u) \<and> j < dofs_per_cell (get_discretization u)
       then filter_integrand alpha u cell q i j else 0))"
  unfolding filter_point_def Let_def
  apply (simp add: std_sqrt_graph_area)
  apply (rule loop_i [where e = "\<lambda>i j. filter_integrand alpha u cell q i j"])
  apply (rule loop_j)
  apply (simp add: filter_entry_eq filter_integrand_def Let_def)
  done

lemma filter_cell_matrix_eq:
  "filter_cell_matrix alpha u cell =
     Some (\<lambda>i j. if i < dofs_per_cell (get_discretization u) \<and> j < dofs_per_cell (get_discretization u)
                  then (\<Sum>q<quad_size (get_discretization u). filter_integrand alpha u cell q i j)
                  else 0)"
  unfolding filter_cell_matrix_def Let_def
  using loop_q [of "filter_point alpha (get_discretization u) cell
      (get_function_gradients (get_discretization u) cell (get_coefficients u))"
      "dofs_per_cell (get_discretization u)" "\<lambda>q i j. filter_integrand alpha u cell q i j"
      "quad_size (get_discretization u)" "\<lambda>i j. 0", OF filter_point_eq]
  by simp


lemma filter_operator_eq:
  "filter_operator alpha u =
     Some (fold (\<lambda>cell. distribute_matrix (get_constraints (get_discretization u))
                   (\<lambda>i j. if i < dofs_per_cell (get_discretization u)
                             \<and> j < dofs_per_cell (get_discretization u)
                           then (\<Sum>q<quad_size (get_discretization u).
                                   filter_integrand alpha u cell q i j)
                           else 0)
                   (dof_indices cell))
            (active_cells (get_discretization u))
            (zero_matrix (n_dofs (get_discretization u))))"
  unfolding filter_operator_def Let_def
  by (rule for_each_fold) (simp add: filter_cell_matrix_eq)

lemma filter_solves:
  assumes "filter_operator (tv_alpha tv) u = Some A"
      and "exact_linear_solve linear_solve A (n_dofs (get_discretization u))"
  shows "case TotalVariation_filter linear_solve tv u f of
           Some v \<Rightarrow> get_discretization v = get_discretization u
                    \<and> length (get_coefficients v) = n_dofs (get_discretization u)
                    \<and> mat_vec A (get_coefficients v) = get_coefficients f
         | None \<Rightarrow> \<not> (\<exists>x. length x = n_dofs (get_discretization u)
                          \<and> mat_vec A x = get_coefficients f)"
proof -
  let ?n = "n_dofs (get_discretization u)"
  have len: "length (get_coefficients (new_field (get_discretization u))) = ?n"
    by (simp add: new_field_def)
  from assms(2) len have
    "case linear_solve A (get_coefficients (new_field (get_discretization u)))
            (get_coefficients f) (get_constraints (get_discretization u)) of
       Some x \<Rightarrow> length x = ?n \<and> mat_vec A x = get_coefficients f
     | None \<Rightarrow> \<not> (\<exists>x. length x = ?n \<and> mat_vec A x = get_coefficients f)"
    unfolding exact_linear_solve_def by blast
  then show ?thesis
    by (simp add: TotalVariation_filter_def Let_def assms(1) new_field_def split: option.splits)
qed

lemma SquareGradient_filter_solves:
  assumes "exact_cg solve (SquareGradient_operator sg) (n_dofs (get_discretization f))"
  shows "case SquareGradient_filter solve sg u f of
           Some v \<Rightarrow> get_discretization v = get_discretization f
                    \<and> length (get_coefficients v) = n_dofs (get_discretization f)
                    \<and> SquareGradient_operator sg (get_coefficients v) = get_coefficients f
         | None \<Rightarrow> \<not> (\<exists>x. length x = n_dofs (get_discretization f)
                          \<and> SquareGradient_operator sg x = get_coefficients f)"
proof -
  let ?n = "n_dofs (get_discretization f)"
  have len: "length (get_coefficients (new_field (get_discretization f))) = ?n"
    by (simp add: new_field_def)
  from assms len have
    "case solve (1000, 1 / 10 ^ 10) (SquareGradient_operator sg)
            (get_coefficients (new_field (get_discretization f))) (get_coefficients f) of
       Some x \<Rightarrow> length x = ?n \<and> SquareGradient_operator sg x = get_coefficients f
     | None \<Rightarrow> \<not> (\<exists>x. length x = ?n \<and> SquareGradient_operator sg x = get_coefficients f)"
    unfolding exact_cg_def by blast
  then show ?thesis
    by (simp add: Let_def new_field_def split: option.splits)
qed

lemma graph_area_square:
  "graph_area alpha g * graph_area alpha g = dot (smul alpha g) (smul alpha g) + 1"
  using dot_self_nonneg [of "smul alpha g"] by (simp add: graph_area_def)

lemma graph_normal_dot:
  "dot (graph_normal alpha g) (graph_normal alpha g)
     = dot (smul alpha g) (smul alpha g) / (dot (smul alpha g) (smul alpha g) + 1)"
proof -
  have "dot (graph_normal alpha g) (graph_normal alpha g)
      = dot (smul alpha g) (smul alpha g) / (graph_area alpha g * graph_area alpha g)"
    by (simp add: graph_normal_def dot_def add_divide_distrib)
  then show ?thesis by (simp only: graph_area_square)
qed

lemma graph_normal_le_1: "dot (graph_normal alpha g) (graph_normal alpha g) \<le> 1"
  using dot_self_nonneg [of "smul alpha g"] by (simp add: graph_normal_dot)

lemma cauchy_schwarz_2: "dot w t * dot t w \<le> dot w w * dot t t"
proof -
  have "dot w w * dot t t - dot w t * dot t w = (fst w * snd t - snd w * fst t)\<^sup>2"
    by (simp add: dot_def power2_eq_square algebra_simps)
  then have "0 \<le> dot w w * dot t t - dot w t * dot t w" by simp
  then show ?thesis by simp
qed

lemma anisotropic_nonneg:
  "0 \<le> (dot w w - dot w (graph_normal alpha g) * dot (graph_normal alpha g) w)
          / graph_area alpha g"
proof -
  let ?t = "graph_normal alpha g"
  have "dot w ?t * dot ?t w \<le> dot w w * dot ?t ?t" by (rule cauchy_schwarz_2)
  also have "\<dots> \<le> dot w w * 1"
    by (rule mult_left_mono [OF graph_normal_le_1 dot_self_nonneg])
  finally have "0 \<le> dot w w - dot w ?t * dot ?t w" by simp
  moreover have "0 < graph_area alpha g" using graph_area_ge_1 [of alpha g] by simp
  ultimately show ?thesis by simp
qed

lemma double_sum_product:
  fixes f g :: "nat \<Rightarrow> real"
  shows "(\<Sum>i<n. \<Sum>j<n. f i * g j) = (\<Sum>i<n. f i) * (\<Sum>j<n. g j)"
  by (simp add: sum_product)

lemma quadratic_form_sums:
  fixes a x y u :: "nat \<Rightarrow> real"
  shows "(\<Sum>i<n. \<Sum>j<n. k0 * (a i * a j) + k1 * (x i * x j + y i * y j - u i * u j))
       = k0 * ((\<Sum>i<n. a i) * (\<Sum>i<n. a i))
         + k1 * ((\<Sum>i<n. x i) * (\<Sum>i<n. x i) + (\<Sum>i<n. y i) * (\<Sum>i<n. y i)
                 - (\<Sum>i<n. u i) * (\<Sum>i<n. u i))"
proof -
  have "(\<Sum>i<n. \<Sum>j<n. k0 * (a i * a j) + k1 * (x i * x j + y i * y j - u i * u j))
      = k0 * (\<Sum>i<n. \<Sum>j<n. a i * a j)
        + k1 * ((\<Sum>i<n. \<Sum>j<n. x i * x j) + (\<Sum>i<n. \<Sum>j<n. y i * y j)
                - (\<Sum>i<n. \<Sum>j<n. u i * u j))"
    by (simp add: sum.distrib sum_subtractf sum_distrib_left [symmetric])
  then show ?thesis by (simp only: double_sum_product)
qed

lemma anisotropic_form_nonneg:
  "0 \<le> dot w w - dot w (graph_normal alpha g) * dot (graph_normal alpha g) w"
proof -
  let ?t = "graph_normal alpha g"
  have "dot w ?t * dot ?t w \<le> dot w w * dot ?t ?t" by (rule cauchy_schwarz_2)
  also have "\<dots> \<le> dot w w * 1"
    by (rule mult_left_mono [OF graph_normal_le_1 dot_self_nonneg])
  finally show ?thesis by simp
qed

lemma integrand_algebra:
  fixes dA :: real
  assumes "dA \<noteq> 0"
  shows "ci * cj * ((p * p' + al * al * ((g1 * h1 + g2 * h2
              - (g1 * t1 + g2 * t2) * (t1 * h1 + t2 * h2)) / dA)) * dx)
       = dx * ((ci * p) * (cj * p'))
         + al * al * (dx / dA) * ((ci * g1) * (cj * h1) + (ci * g2) * (cj * h2)
              - (ci * (g1 * t1 + g2 * t2)) * (cj * (h1 * t1 + h2 * t2)))"
  using assms by (simp add: field_simps)

lemma integrand_term:
  "c i * c j * filter_integrand alpha u cell q i j =
     JxW cell q * ((c i * shape_value cell i q) * (c j * shape_value cell j q))
     + alpha * alpha * (JxW cell q / graph_area alpha
          (get_function_gradients (get_discretization u) cell (get_coefficients u) q))
       * ((c i * fst (shape_gradient cell i q)) * (c j * fst (shape_gradient cell j q))
          + (c i * snd (shape_gradient cell i q)) * (c j * snd (shape_gradient cell j q))
          - (c i * dot (shape_gradient cell i q) (graph_normal alpha
                (get_function_gradients (get_discretization u) cell (get_coefficients u) q)))
            * (c j * dot (shape_gradient cell j q) (graph_normal alpha
                (get_function_gradients (get_discretization u) cell (get_coefficients u) q))))"
  unfolding filter_integrand_def Let_def dot_def
  by (rule integrand_algebra [OF graph_area_nonzero])

lemma point_form_dominates_mass:
  assumes "0 \<le> JxW cell q"
  shows "(\<Sum>i<n. c i * shape_value cell i q) * (\<Sum>i<n. c i * shape_value cell i q) * JxW cell q
       \<le> (\<Sum>i<n. \<Sum>j<n. c i * c j * filter_integrand alpha u cell q i j)"
proof -
  define g where "g = get_function_gradients (get_discretization u) cell (get_coefficients u) q"
  define t where "t = graph_normal alpha g"
  define S where "S = (\<Sum>i<n. c i * shape_value cell i q)"
  define X where "X = (\<Sum>i<n. c i * fst (shape_gradient cell i q))"
  define Y where "Y = (\<Sum>i<n. c i * snd (shape_gradient cell i q))"
  define U where "U = (\<Sum>i<n. c i * dot (shape_gradient cell i q) t)"
  define k where "k = alpha * alpha * (JxW cell q / graph_area alpha g)"
  have U: "U = dot (X, Y) t"
    by (simp add: U_def X_def Y_def dot_def sum.distrib sum_distrib_left algebra_simps)
  have "0 \<le> dot (X, Y) (X, Y) - dot (X, Y) t * dot t (X, Y)"
    unfolding t_def by (rule anisotropic_form_nonneg)
  moreover have "dot t (X, Y) = dot (X, Y) t" by (simp add: dot_def algebra_simps)
  ultimately have form: "0 \<le> X * X + Y * Y - U * U"
    by (simp add: U dot_def mult.commute)
  have "0 < graph_area alpha g" using graph_area_ge_1 [of alpha g] by simp
  then have k: "0 \<le> k" using assms by (simp add: k_def)
  have "(\<Sum>i<n. \<Sum>j<n. c i * c j * filter_integrand alpha u cell q i j)
      = JxW cell q * (S * S) + k * (X * X + Y * Y - U * U)"
    unfolding integrand_term quadratic_form_sums
    by (simp only: g_def t_def S_def X_def Y_def U_def k_def)
  moreover have "0 \<le> k * (X * X + Y * Y - U * U)"
    using k form by (rule mult_nonneg_nonneg)
  ultimately show ?thesis by (simp add: S_def algebra_simps)
qed

lemma cell_form_dominates_mass:
  assumes "\<forall>q<nq. 0 \<le> JxW cell q"
  shows "(\<Sum>q<nq. (\<Sum>i<n. c i * shape_value cell i q) * (\<Sum>i<n. c i * shape_value cell i q)
                   * JxW cell q)
       \<le> (\<Sum>i<n. \<Sum>j<n. c i * c j * (\<Sum>q<nq. filter_integrand alpha u cell q i j))"
proof -
  have "(\<Sum>i<n. \<Sum>j<n. c i * c j * (\<Sum>q<nq. filter_integrand alpha u cell q i j))
      = (\<Sum>i<n. \<Sum>j<n. \<Sum>q<nq. c i * c j * filter_integrand alpha u cell q i j)"
    by (simp add: sum_distrib_left)
  also have "\<dots> = (\<Sum>i<n. \<Sum>q<nq. \<Sum>j<n. c i * c j * filter_integrand alpha u cell q i j)"
    by (rule sum.cong [OF refl]) (rule sum.swap)
  also have "\<dots> = (\<Sum>q<nq. \<Sum>i<n. \<Sum>j<n. c i * c j * filter_integrand alpha u cell q i j)"
    by (rule sum.swap)
  finally have eq: "(\<Sum>i<n. \<Sum>j<n. c i * c j * (\<Sum>q<nq. filter_integrand alpha u cell q i j))
      = (\<Sum>q<nq. \<Sum>i<n. \<Sum>j<n. c i * c j * filter_integrand alpha u cell q i j)" .
  show ?thesis
    unfolding eq
  proof (rule sum_mono)
    fix q assume "q \<in> {..<nq}"
    then have "0 \<le> JxW cell q" using assms by simp
    then show "(\<Sum>i<n. c i * shape_value cell i q) * (\<Sum>i<n. c i * shape_value cell i q)
                 * JxW cell q
               \<le> (\<Sum>i<n. \<Sum>j<n. c i * c j * filter_integrand alpha u cell q i j)"
      by (rule point_form_dominates_mass)
  qed
qed

section \<open>Evaluation on the small discretization\<close>

lemma length2: "length x = 2 \<longleftrightarrow> (\<exists>a b. x = [a, b])"
  by (cases x; cases "tl x"; cases "tl (tl x)") auto

lemma mat_vec_length: "length (mat_vec A x) = length A"
  by (simp add: mat_vec_def)

lemma cramer2_value:
  assumes "d = a11 * a22 - a12 * a21" and "d \<noteq> 0"
  shows "cramer2 [[a11, a12], [a21, a22]] [b1, b2] =
           Some [(b1 * a22 - a12 * b2) / d, (a11 * b2 - b1 * a21) / d]"
  using assms(2) unfolding assms(1) by (simp add: cramer2_def Let_def)

lemma cramer2_solves:
  assumes "d = a11 * a22 - a12 * a21" and "d \<noteq> 0"
  shows "mat_vec [[a11, a12], [a21, a22]] [(b1 * a22 - a12 * b2) / d, (a11 * b2 - b1 * a21) / d]
           = [b1, b2]"
proof -
  have 1: "a11 * ((b1 * a22 - a12 * b2) / d) + a12 * ((a11 * b2 - b1 * a21) / d) = b1"
  proof -
    have "a11 * ((b1 * a22 - a12 * b2) / d) + a12 * ((a11 * b2 - b1 * a21) / d)
        = (b1 * (a11 * a22 - a12 * a21)) / d"
      by (simp add: algebra_simps add_divide_distrib [symmetric] diff_divide_distrib [symmetric])
    then show ?thesis using assms by simp
  qed
  have 2: "a21 * ((b1 * a22 - a12 * b2) / d) + a22 * ((a11 * b2 - b1 * a21) / d) = b2"
  proof -
    have "a21 * ((b1 * a22 - a12 * b2) / d) + a22 * ((a11 * b2 - b1 * a21) / d)
        = (b2 * (a11 * a22 - a12 * a21)) / d"
      by (simp add: algebra_simps add_divide_distrib [symmetric] diff_divide_distrib [symmetric])
    then show ?thesis using assms by simp
  qed
  show ?thesis using 1 2 by (simp add: mat_vec_def)
qed

lemma cramer2_none:
  assumes "length b \<noteq> 2"
  shows "cramer2 A b = None"
  using assms by (simp add: cramer2_def Let_def)

lemma cs_true:
  assumes "a11 * a22 - a12 * a21 \<noteq> 0"
  shows "case cramer2 [[a11, a12], [a21, a22]] [b1, b2] of
           Some x \<Rightarrow> length x = 2 \<and> mat_vec [[a11, a12], [a21, a22]] x = [b1, b2]
         | None \<Rightarrow> \<not> (\<exists>x. length x = 2 \<and> mat_vec [[a11, a12], [a21, a22]] x = [b1, b2])"
proof -
  have l: "length [(b1 * a22 - a12 * b2) / (a11 * a22 - a12 * a21),
                (a11 * b2 - b1 * a21) / (a11 * a22 - a12 * a21)] = 2"
    by simp
  show ?thesis
    unfolding cramer2_value [OF refl assms] option.case
    using l cramer2_solves [OF refl assms, of b1 b2] by (rule conjI)
qed

lemma cs_false:
  assumes "length b \<noteq> 2"
  shows "case cramer2 [[a11, a12], [a21, a22]] b of
           Some x \<Rightarrow> length x = 2 \<and> mat_vec [[a11, a12], [a21, a22]] x = b
         | None \<Rightarrow> \<not> (\<exists>x. length x = 2 \<and> mat_vec [[a11, a12], [a21, a22]] x = b)"
proof -
  have "\<not> (\<exists>x. length x = 2 \<and> mat_vec [[a11, a12], [a21, a22]] x = b)"
  proof
    assume "\<exists>x. length x = 2 \<and> mat_vec [[a11, a12], [a21, a22]] x = b"
    then obtain x where "mat_vec [[a11, a12], [a21, a22]] x = b" by blast
    then have "length b = length [[a11, a12], [a21, a22]]"
      using mat_vec_length [of "[[a11, a12], [a21, a22]]" x] by simp
    then show False using assms by simp
  qed
  then show ?thesis unfolding cramer2_none [OF assms] option.case .
qed

lemma cramer2_sound:
  assumes "a11 * a22 - a12 * a21 \<noteq> 0"
  shows "case cramer2 [[a11, a12], [a21, a22]] b of
           Some x \<Rightarrow> length x = 2 \<and> mat_vec [[a11, a12], [a21, a22]] x = b
         | None \<Rightarrow> \<not> (\<exists>x. length x = 2 \<and> mat_vec [[a11, a12], [a21, a22]] x = b)"
proof (cases "length b = 2")
  case True
  from length2 [THEN iffD1, OF True] obtain b1 b2 where b: "b = [b1, b2]" by (elim exE)
  show ?thesis unfolding b by (rule cs_true [OF assms])
next
  case False
  then show ?thesis by (rule cs_false)
qed

lemma sample_linear_solve_exact:
  assumes "a11 * a22 - a12 * a21 \<noteq> 0"
  shows "exact_linear_solve sample_linear_solve [[a11, a12], [a21, a22]] 2"
  unfolding exact_linear_solve_def sample_linear_solve_def
  using cramer2_sound [OF assms] by blast

lemma sqrt_25_16: "sqrt (25 / 16) = 5 / 4"
proof -
  have "(25 / 16 :: real) = (5 / 4)\<^sup>2" by (simp add: power2_eq_square)
  then show ?thesis by (simp only: real_sqrt_abs) 
qed

lemma sample_field_simps:
  "get_discretization (sample_field cs) = sample_discretization"
  "get_coefficients (sample_field cs) = cs"
  "n_dofs sample_discretization = 2"
  by (simp_all add: sample_field_def sample_discretization_def)

lemma sample_gradient:
  "get_function_gradients sample_discretization sample_cell [0, 3 / 4] q = (3 / 4, 0)"
  by (simp add: get_function_gradients_def sample_discretization_def sample_cell_def
      numeral_2_eq_2)

lemma sample_graph_area: "graph_area 1 (3 / 4, 0) = 5 / 4"
proof -
  have "dot (smul 1 (3 / 4, 0)) (smul 1 (3 / 4, 0)) + 1 = 25 / 16"
    by (simp add: dot_def smul_def)
  then show ?thesis unfolding graph_area_def by (simp only: sqrt_25_16)
qed

lemma sample_normal: "graph_normal 1 (3 / 4, 0) = (3 / 5, 0)"
  by (simp add: graph_normal_def sample_graph_area smul_def)

lemma sample_integrand:
  "filter_integrand 1 (sample_field [0, 3 / 4]) sample_cell q i j =
     (if (i = 0) = (j = 0) then 1 / 4 + 64 / 125 else 1 / 4 - 64 / 125)"
proof -
  have g: "get_function_gradients (get_discretization (sample_field [0, 3 / 4])) sample_cell
             (get_coefficients (sample_field [0, 3 / 4])) q = (3 / 4, 0)"
    by (simp add: sample_field_def sample_gradient)
  show ?thesis
    unfolding filter_integrand_def Let_def g sample_graph_area sample_normal
    by (simp add: sample_cell_def dot_def)
qed

lemma upt_0_2: "[0..<length [a, b]] = [0, 1]"
  by (simp add: numeral_2_eq_2)

lemma scatter_matrix_2:
  "scatter_matrix m [0, 1] [[0, 0], [0, 0]] = [[m 0 0, m 0 1], [m 1 0, m 1 1]]"
  unfolding scatter_matrix_def upt_0_2 by simp

lemma sample_operator:
  "filter_operator 1 (sample_field [0, 3 / 4]) =
     Some [[381 / 500, - (131 / 500)], [- (131 / 500), 381 / 500]]"
proof -
  define m where "m = (\<lambda>i j. if i < dofs_per_cell (get_discretization (sample_field [0, 3 / 4]))
                             \<and> j < dofs_per_cell (get_discretization (sample_field [0, 3 / 4]))
                           then (\<Sum>q<quad_size (get_discretization (sample_field [0, 3 / 4])).
                                   filter_integrand 1 (sample_field [0, 3 / 4]) sample_cell q i j)
                           else 0)"
  have z: "zero_matrix 2 = [[0, 0], [0, 0]]"
    by (simp add: zero_matrix_def numeral_2_eq_2)
  have d: "get_discretization (sample_field [0, 3 / 4]) = sample_discretization"
    by (simp add: sample_field_def)
  have s: "active_cells sample_discretization = [sample_cell]"
      "n_dofs sample_discretization = 2" "dofs_per_cell sample_discretization = 2"
      "quad_size sample_discretization = 1"
      "distribute_matrix (get_constraints sample_discretization) = scatter_matrix"
    by (simp_all add: sample_discretization_def no_constraints_def)
  have c: "dof_indices sample_cell = [0, 1]"
    by (simp add: sample_cell_def)
  have m: "m 0 0 = 381 / 500" "m 0 1 = - (131 / 500)"
      "m 1 0 = - (131 / 500)" "m 1 1 = 381 / 500"
    by (simp_all add: m_def d s sample_integrand)
  have "filter_operator 1 (sample_field [0, 3 / 4]) =
          Some (scatter_matrix m (dof_indices sample_cell) (zero_matrix 2))"
    unfolding filter_operator_eq d s m_def by (simp only: fold.simps id_apply comp_apply d s)
  then show ?thesis
    by (simp only: c z scatter_matrix_2 m)
qed

lemma sample_laplace:
  "create_laplace_matrix sample_discretization (1 * 1) = [[1, - 1], [- 1, 1]]"
proof -
  define m where "m = laplace_cell_matrix (1 * 1) sample_discretization sample_cell"
  have z: "zero_matrix 2 = [[0, 0], [0, 0]]"
    by (simp add: zero_matrix_def numeral_2_eq_2)
  have s: "active_cells sample_discretization = [sample_cell]"
      "n_dofs sample_discretization = 2"
      "distribute_matrix (get_constraints sample_discretization) = scatter_matrix"
    by (simp_all add: sample_discretization_def no_constraints_def)
  have c: "dof_indices sample_cell = [0, 1]"
    by (simp add: sample_cell_def)
  have m: "m 0 0 = 1" "m 0 1 = - 1" "m 1 0 = - 1" "m 1 1 = 1"
    by (simp_all add: m_def laplace_cell_matrix_def sample_discretization_def sample_cell_def
        dot_def)
  have "create_laplace_matrix sample_discretization (1 * 1) =
          scatter_matrix m (dof_indices sample_cell) (zero_matrix 2)"
    unfolding create_laplace_matrix_def s m_def by (simp only: fold.simps id_apply comp_apply)
  then show ?thesis
    by (simp only: c z scatter_matrix_2 m)
qed

lemma sample_square_gradient_value:
  "sample_square_gradient =
     \<lparr>sg_L = [[1, - 1], [- 1, 1]], sg_M = [[1 / 3, 1 / 6], [1 / 6, 1 / 3]]\<rparr>"
  unfolding sample_square_gradient_def SquareGradient_def sample_laplace
  by (simp add: sample_discretization_def)

lemma sample_square_gradient_operator:
  "SquareGradient_operator sample_square_gradient [x1, x2] =
     mat_vec [[4 / 3, - (5 / 6)], [- (5 / 6), 4 / 3]] [x1, x2]"
  unfolding sample_square_gradient_value
  by (simp add: SquareGradient_operator_def mat_vec_def vec_add_def)

lemma sample_square_gradient_operator_length:
  "length (SquareGradient_operator sample_square_gradient x) = 2"
  unfolding sample_square_gradient_value
  by (simp add: SquareGradient_operator_def mat_vec_def vec_add_def)

lemma sample_cg_cramer2:
  "sample_cg control (SquareGradient_operator sample_square_gradient) x0 b =
     cramer2 [[4 / 3, - (5 / 6)], [- (5 / 6), 4 / 3]] b"
  unfolding sample_cg_def sample_square_gradient_operator
  by (simp add: mat_vec_def)

lemma sample_cg_exact: "exact_cg sample_cg (SquareGradient_operator sample_square_gradient) 2"
proof -
  have det: "4 / 3 * (4 / 3) - (- (5 / 6)) * (- (5 / 6)) \<noteq> (0 :: real)" by simp
  have eq: "(\<exists>x. length x = 2 \<and> SquareGradient_operator sample_square_gradient x = b)
        \<longleftrightarrow> (\<exists>x. length x = 2 \<and> mat_vec [[4 / 3, - (5 / 6)], [- (5 / 6), 4 / 3]] x = b)" for b
    unfolding length2 using sample_square_gradient_operator by metis
  have "case sample_cg control (SquareGradient_operator sample_square_gradient) x0 b of
           Some x \<Rightarrow> length x = 2 \<and> SquareGradient_operator sample_square_gradient x = b
         | None \<Rightarrow> \<not> (\<exists>x. length x = 2 \<and> SquareGradient_operator sample_square_gradient x = b)"
    for control x0 b
  proof (cases "cramer2 [[4 / 3, - (5 / 6)], [- (5 / 6), 4 / 3]] b")
    case None
    with cramer2_sound [OF det, of b] show ?thesis
      unfolding sample_cg_cramer2 eq by simp
  next
    case (Some x)
    with cramer2_sound [OF det, of b]
    have x: "length x = 2" "mat_vec [[4 / 3, - (5 / 6)], [- (5 / 6), 4 / 3]] x = b" by simp_all
    from length2 [THEN iffD1, OF x(1)] obtain x1 x2 where "x = [x1, x2]" by (elim exE)
    with x(2) have "SquareGradient_operator sample_square_gradient x = b"
      by (simp only: sample_square_gradient_operator)
    with x(1) Some show ?thesis unfolding sample_cg_cramer2 by simp
  qed
  then show ?thesis unfolding exact_cg_def by blast
qed


section \<open>Evaluation on the bilinear cell with one quadrature point\<close>

lemma upt_0_4: "[0..<length [a, b, c, d]] = [0, 1, 2, 3]"
  by (simp add: eval_nat_numeral)

lemma scatter_matrix_4:
  "scatter_matrix m [0, 1, 2, 3] [[0, 0, 0, 0], [0, 0, 0, 0], [0, 0, 0, 0], [0, 0, 0, 0]] =
     [[m 0 0, m 0 1, m 0 2, m 0 3], [m 1 0, m 1 1, m 1 2, m 1 3],
      [m 2 0, m 2 1, m 2 2, m 2 3], [m 3 0, m 3 1, m 3 2, m 3 3]]"
  unfolding scatter_matrix_def upt_0_4 by (simp add: eval_nat_numeral)

lemma zero_matrix_4:
  "zero_matrix 4 = [[0, 0, 0, 0], [0, 0, 0, 0], [0, 0, 0, 0], [0, 0, 0, 0]]"
  by (simp add: zero_matrix_def eval_nat_numeral)

lemma hourglass_simps:
  "active_cells hourglass_discretization = [hourglass_cell]"
  "n_dofs hourglass_discretization = 4"
  "dofs_per_cell hourglass_discretization = 4"
  "quad_size hourglass_discretization = 1"
  "distribute_matrix (get_constraints hourglass_discretization) = scatter_matrix"
  "dof_indices hourglass_cell = [0, 1, 2, 3]"
  "get_discretization (hourglass_field cs) = hourglass_discretization"
  "get_coefficients (hourglass_field cs) = cs"
  by (simp_all add: hourglass_discretization_def no_constraints_def hourglass_cell_def
      hourglass_field_def)

lemma hourglass_laplace:
  "create_laplace_matrix hourglass_discretization (1 * 1) =
     [[1 / 2, 0, 0, - (1 / 2)], [0, 1 / 2, - (1 / 2), 0],
      [0, - (1 / 2), 1 / 2, 0], [- (1 / 2), 0, 0, 1 / 2]]"
proof -
  define m where "m = laplace_cell_matrix (1 * 1) hourglass_discretization hourglass_cell"
  have m: "m 0 0 = 1 / 2" "m 0 1 = 0" "m 0 2 = 0" "m 0 3 = - (1 / 2)"
      "m 1 0 = 0" "m 1 1 = 1 / 2" "m 1 2 = - (1 / 2)" "m 1 3 = 0"
      "m 2 0 = 0" "m 2 1 = - (1 / 2)" "m 2 2 = 1 / 2" "m 2 3 = 0"
      "m 3 0 = - (1 / 2)" "m 3 1 = 0" "m 3 2 = 0" "m 3 3 = 1 / 2"
    by (simp_all add: m_def laplace_cell_matrix_def hourglass_simps hourglass_cell_def dot_def)
  have "create_laplace_matrix hourglass_discretization (1 * 1) =
          scatter_matrix m (dof_indices hourglass_cell) (zero_matrix 4)"
    unfolding create_laplace_matrix_def m_def
    by (simp only: fold.simps id_apply comp_apply hourglass_simps)
  then show ?thesis
    by (simp only: hourglass_simps zero_matrix_4 scatter_matrix_4 m)
qed








lemma hourglass_operator_length: "length (hourglass_operator_ML x) = 4"
  unfolding hourglass_operator_ML_def hourglass_laplace
  by (simp add: hourglass_discretization_def mat_vec_def vec_add_def)






section \<open>A positive definite operator is one to one\<close>

text \<open>
  The operator \<open>M + L\<close> of the square gradient filter is one to one on the coefficient
  vectors of length \<open>n\<close> as soon as it is positive definite there, which is what the
  specification says of it (a positive definite mass matrix plus a positive
  semi-definite matrix \<open>L\<close>).
\<close>

lemma row_sub:
  "length x = length y \<Longrightarrow>
     sum_list (map2 (*) row (map2 (-) x y))
       = sum_list (map2 (*) row x) - sum_list (map2 (*) (row :: real list) y)"
proof (induction row arbitrary: x y)
  case Nil
  then show ?case by simp
next
  case (Cons r row)
  show ?case
  proof (cases x)
    case Nil
    with Cons.prems show ?thesis by simp
  next
    case (Cons a x')
    with Cons.prems obtain b y' where y: "y = b # y'" by (cases y) auto
    with Cons Cons.prems Cons.IH [of x' y'] show ?thesis
      by (simp add: algebra_simps)
  qed
qed

lemma mat_vec_sub:
  "length x = length y \<Longrightarrow> mat_vec A (map2 (-) x y) = map2 (-) (mat_vec A x) (mat_vec A y)"
  by (induction A) (simp_all add: mat_vec_def row_sub)

lemma operator_sub:
  assumes "length x = length y" and "length (sg_M sg) = length (sg_L sg)"
  shows "SquareGradient_operator sg (map2 (-) x y)
           = map2 (-) (SquareGradient_operator sg x) (SquareGradient_operator sg y)"
proof -
  have len: "length (mat_vec (sg_M sg) v) = length (mat_vec (sg_L sg) w)" for v w
    using assms(2) by (simp add: mat_vec_length)
  show ?thesis
    unfolding SquareGradient_operator_def vec_add_def mat_vec_sub [OF assms(1)]
    by (rule nth_equalityI) (use len assms(2) in \<open>simp_all add: mat_vec_length\<close>)
qed

lemma sub_self: "map2 (-) v v = replicate (length v) (0 :: real)"
  by (induction v) simp_all

lemma inner_zero: "inner d (replicate n 0) = 0"
  by (induction d arbitrary: n) (simp add: inner_def, case_tac n, simp_all add: inner_def)

lemma sub_zero_eq:
  "length x = length y \<Longrightarrow> map2 (-) x y = replicate (length x) (0 :: real) \<Longrightarrow> x = y"
  by (induction x y rule: list_induct2) simp_all

lemma positive_definite_one_to_one:
  assumes pd: "\<forall>d. length d = n \<and> d \<noteq> replicate n 0
                 \<longrightarrow> 0 < inner d (SquareGradient_operator sg d)"
    and dims: "length (sg_M sg) = n" "length (sg_L sg) = n"
    and xy: "length x = n" "length y = n"
    and eq: "SquareGradient_operator sg x = SquareGradient_operator sg y"
  shows "x = y"
proof -
  let ?d = "map2 (-) x y"
  have l: "length ?d = n" using xy by simp
  have "SquareGradient_operator sg ?d
          = map2 (-) (SquareGradient_operator sg y) (SquareGradient_operator sg y)"
    using operator_sub [of x y sg] xy dims eq by simp
  then have "inner ?d (SquareGradient_operator sg ?d) = 0"
    by (simp only: sub_self inner_zero)
  with pd l have "?d = replicate n 0" by force
  then show ?thesis using sub_zero_eq [of x y] xy by simp
qed

section \<open>Properties of the regularizers\<close>

text \<open>
  Claim C3. For every reference field \<open>u\<close> and dual field \<open>f\<close>, \<open>TotalVariation.filter\<close>
  computes for every cell the matrix whose entry \<open>(i, j)\<close> is the sum over the quadrature
  points of \<open>(\<phi>\<^sub>i \<phi>\<^sub>j + \<alpha>\<^sup>2 (\<nabla>\<phi>\<^sub>i \<cdot> \<nabla>\<phi>\<^sub>j - (\<nabla>\<phi>\<^sub>i \<cdot> \<tau>) (\<tau> \<cdot> \<nabla>\<phi>\<^sub>j)) / dA) dx\<close>, with \<open>du\<close> the
  gradient of \<open>u\<close> scaled by \<open>\<alpha>\<close>, \<open>dA = sqrt (du \<cdot> du + 1)\<close> and \<open>\<tau> = du / dA\<close>; its operator
  \<open>A(u)\<close> is assembled from these, starting from the zero matrix, on the call itself (it
  is a function of \<open>\<alpha>\<close> and \<open>u\<close> alone); and with an exact linear solve it returns the
  solution \<open>v\<close> of \<open>A(u) v = f\<close>, failing only when there is none.
\<close>

theorem filter_assembles_and_solves:
  "filter_cell_matrix (tv_alpha tv) u cell =
     Some (\<lambda>i j. if i < dofs_per_cell (get_discretization u)
                     \<and> j < dofs_per_cell (get_discretization u)
                  then (\<Sum>q<quad_size (get_discretization u).
                          filter_integrand (tv_alpha tv) u cell q i j)
                  else 0)
   \<and> (\<exists>A. filter_operator (tv_alpha tv) u = Some A
        \<and> A = fold (\<lambda>cell. distribute_matrix (get_constraints (get_discretization u))
                       (\<lambda>i j. if i < dofs_per_cell (get_discretization u)
                                 \<and> j < dofs_per_cell (get_discretization u)
                               then (\<Sum>q<quad_size (get_discretization u).
                                       filter_integrand (tv_alpha tv) u cell q i j)
                               else 0)
                       (dof_indices cell))
                (active_cells (get_discretization u))
                (zero_matrix (n_dofs (get_discretization u)))
        \<and> (exact_linear_solve linear_solve A (n_dofs (get_discretization u)) \<longrightarrow>
             (case TotalVariation_filter linear_solve tv u f of
                Some v \<Rightarrow> get_discretization v = get_discretization u
                         \<and> length (get_coefficients v) = n_dofs (get_discretization u)
                         \<and> mat_vec A (get_coefficients v) = get_coefficients f
              | None \<Rightarrow> \<not> (\<exists>x. length x = n_dofs (get_discretization u)
                               \<and> mat_vec A x = get_coefficients f))))"
proof -
  obtain A where A: "filter_operator (tv_alpha tv) u = Some A"
    using filter_operator_eq by blast
  have "A = fold (\<lambda>cell. distribute_matrix (get_constraints (get_discretization u))
                       (\<lambda>i j. if i < dofs_per_cell (get_discretization u)
                                 \<and> j < dofs_per_cell (get_discretization u)
                               then (\<Sum>q<quad_size (get_discretization u).
                                       filter_integrand (tv_alpha tv) u cell q i j)
                               else 0)
                       (dof_indices cell))
                (active_cells (get_discretization u))
                (zero_matrix (n_dofs (get_discretization u)))"
    using A unfolding filter_operator_eq by simp
  then show ?thesis
    using A filter_solves [OF A] filter_cell_matrix_eq by blast
qed

theorem filter_assembles_and_solves_witness:
  "\<exists>v. TotalVariation_filter sample_linear_solve (TotalVariation sample_discretization 1)
          (sample_field [0, 3 / 4]) (sample_field [1, 0]) = Some v
       \<and> filter_operator 1 (sample_field [0, 3 / 4]) =
           Some [[381 / 500, - (131 / 500)], [- (131 / 500), 381 / 500]]
       \<and> mat_vec [[381 / 500, - (131 / 500)], [- (131 / 500), 381 / 500]]
           (get_coefficients v) = [1, 0]"
proof -
  let ?tv = "TotalVariation sample_discretization 1"
  let ?u = "sample_field [0, 3 / 4]"
  let ?f = "sample_field [1, 0]"
  let ?A = "[[381 / 500, - (131 / 500)], [- (131 / 500), 381 / (500 :: real)]]"
  have a: "tv_alpha ?tv = 1" by (simp add: TotalVariation_def)
  have n: "n_dofs (get_discretization ?u) = 2"
    by (simp add: sample_field_def sample_discretization_def)
  have f: "get_coefficients ?f = [1, 0]" by (simp add: sample_field_def)
  have det: "381 / 500 * (381 / 500) - (- (131 / 500)) * (- (131 / 500)) \<noteq> (0 :: real)"
    by simp
  have ex: "exact_linear_solve sample_linear_solve ?A 2"
    by (rule sample_linear_solve_exact [OF det])
  have some: "TotalVariation_filter sample_linear_solve ?tv ?u ?f \<noteq> None"
    unfolding TotalVariation_filter_def Let_def a sample_operator sample_linear_solve_def f
    by (simp add: cramer2_def Let_def)
  from filter_assembles_and_solves [of ?tv ?u _ sample_linear_solve ?f]
  have "exact_linear_solve sample_linear_solve ?A 2 \<longrightarrow>
          (case TotalVariation_filter sample_linear_solve ?tv ?u ?f of
             Some v \<Rightarrow> get_discretization v = get_discretization ?u
                      \<and> length (get_coefficients v) = 2
                      \<and> mat_vec ?A (get_coefficients v) = [1, 0]
           | None \<Rightarrow> \<not> (\<exists>x. length x = 2 \<and> mat_vec ?A x = [1, 0]))"
    unfolding a sample_operator n f by blast
  with ex some sample_operator show ?thesis
    by (cases "TotalVariation_filter sample_linear_solve ?tv ?u ?f") simp_all
qed

text \<open>
  Claim C10. The constructor of \<open>TotalVariation\<close> discards its discretization and keeps
  only \<open>\<alpha>\<close>: built from any two discretizations and the same \<open>\<alpha>\<close>, the two objects are
  equal and give the same value, derivative and filter on every field.
\<close>

theorem TotalVariation_ignores_discretization:
  "TotalVariation d1 alpha = TotalVariation d2 alpha
   \<and> tv_alpha (TotalVariation d1 alpha) = alpha
   \<and> TotalVariation_value (TotalVariation d1 alpha) u
       = TotalVariation_value (TotalVariation d2 alpha) u
   \<and> TotalVariation_derivative (TotalVariation d1 alpha) u
       = TotalVariation_derivative (TotalVariation d2 alpha) u
   \<and> TotalVariation_filter linear_solve (TotalVariation d1 alpha) u f
       = TotalVariation_filter linear_solve (TotalVariation d2 alpha) u f"
  by (simp add: TotalVariation_def)

text \<open>
  Claim C4. The result of \<open>SquareGradient.filter\<close> does not depend on its first argument:
  for every dual field \<open>f\<close> and reference fields \<open>u1\<close>, \<open>u2\<close> the two calls are equal; the
  object holds the mass matrix \<open>M\<close> of its discretization and the matrix \<open>L\<close> computed at
  construction, and with an exact linear solve the field returned is the solution \<open>v\<close>
  of \<open>(M + L) v = f\<close> (the call fails only when there is none).
\<close>

theorem SquareGradient_filter_ignores_reference:
  "SquareGradient_filter solve sg u1 f = SquareGradient_filter solve sg u2 f
   \<and> sg_M (SquareGradient dsc alpha) = get_mass_matrix dsc
   \<and> sg_L (SquareGradient dsc alpha) = create_laplace_matrix dsc (alpha * alpha)
   \<and> (exact_cg solve (SquareGradient_operator sg) (n_dofs (get_discretization f)) \<longrightarrow>
        (case SquareGradient_filter solve sg u1 f of
           Some v \<Rightarrow> get_discretization v = get_discretization f
                    \<and> length (get_coefficients v) = n_dofs (get_discretization f)
                    \<and> vec_add (mat_vec (sg_M sg) (get_coefficients v))
                               (mat_vec (sg_L sg) (get_coefficients v)) = get_coefficients f
         | None \<Rightarrow> \<not> (\<exists>x. length x = n_dofs (get_discretization f)
                          \<and> vec_add (mat_vec (sg_M sg) x) (mat_vec (sg_L sg) x)
                              = get_coefficients f)))"
proof -
  have "SquareGradient_filter solve sg u1 f = SquareGradient_filter solve sg u2 f"
    by simp
  moreover have "sg_M (SquareGradient dsc alpha) = get_mass_matrix dsc"
      "sg_L (SquareGradient dsc alpha) = create_laplace_matrix dsc (alpha * alpha)"
    by (simp_all add: SquareGradient_def)
  moreover have "case SquareGradient_filter solve sg u1 f of
           Some v \<Rightarrow> get_discretization v = get_discretization f
                    \<and> length (get_coefficients v) = n_dofs (get_discretization f)
                    \<and> vec_add (mat_vec (sg_M sg) (get_coefficients v))
                               (mat_vec (sg_L sg) (get_coefficients v)) = get_coefficients f
         | None \<Rightarrow> \<not> (\<exists>x. length x = n_dofs (get_discretization f)
                          \<and> vec_add (mat_vec (sg_M sg) x) (mat_vec (sg_L sg) x)
                              = get_coefficients f)"
    if "exact_cg solve (SquareGradient_operator sg) (n_dofs (get_discretization f))"
    using SquareGradient_filter_solves [OF that, of u1]
    unfolding SquareGradient_operator_def .
  ultimately show ?thesis by blast
qed

theorem SquareGradient_filter_ignores_reference_witness:
  "SquareGradient_filter sample_cg sample_square_gradient (sample_field [0, 0]) (sample_field [1, 0])
     = SquareGradient_filter sample_cg sample_square_gradient (sample_field [5, 7]) (sample_field [1, 0])
   \<and> (\<exists>v. SquareGradient_filter sample_cg sample_square_gradient (sample_field [0, 0])
              (sample_field [1, 0]) = Some v
          \<and> vec_add (mat_vec (sg_M sample_square_gradient) (get_coefficients v))
                     (mat_vec (sg_L sample_square_gradient) (get_coefficients v)) = [1, 0])"
proof -
  let ?r = "SquareGradient_filter sample_cg sample_square_gradient (sample_field [0, 0])
              (sample_field [1, 0])"
  have det: "4 / 3 * (4 / 3) - (- (5 / 6)) * (- (5 / 6)) \<noteq> (0 :: real)" by simp
  have ex: "exact_cg sample_cg (SquareGradient_operator sample_square_gradient)
              (n_dofs (get_discretization (sample_field [1, 0])))"
    using sample_cg_exact by (simp add: sample_field_simps)
  have some: "?r \<noteq> None"
    by (simp add: Let_def sample_field_simps sample_cg_cramer2 cramer2_value [OF refl det])
  note t = SquareGradient_filter_ignores_reference
    [of sample_cg sample_square_gradient "sample_field [0, 0]" "sample_field [1, 0]"
        "sample_field [5, 7]" sample_discretization 1]
  from t have 1: "?r = SquareGradient_filter sample_cg sample_square_gradient
                         (sample_field [5, 7]) (sample_field [1, 0])"
    by (rule conjunct1)
  from t ex have "case ?r of
           Some v \<Rightarrow> get_discretization v = get_discretization (sample_field [1, 0])
                    \<and> length (get_coefficients v) = n_dofs (get_discretization (sample_field [1, 0]))
                    \<and> vec_add (mat_vec (sg_M sample_square_gradient) (get_coefficients v))
                               (mat_vec (sg_L sample_square_gradient) (get_coefficients v))
                        = get_coefficients (sample_field [1, 0])
         | None \<Rightarrow> \<not> (\<exists>x. length x = n_dofs (get_discretization (sample_field [1, 0]))
                          \<and> vec_add (mat_vec (sg_M sample_square_gradient) x)
                                     (mat_vec (sg_L sample_square_gradient) x)
                              = get_coefficients (sample_field [1, 0]))"
    by blast
  with some have "\<exists>v. ?r = Some v
          \<and> vec_add (mat_vec (sg_M sample_square_gradient) (get_coefficients v))
                     (mat_vec (sg_L sample_square_gradient) (get_coefficients v)) = [1, 0]"
    by (cases ?r) (simp_all add: sample_field_simps)
  with 1 show ?thesis by (rule conjI)
qed







end
